theory Spec2Isabelle
  imports Main "HOL-Library.Sublist"
begin

section \<open>Python values used by \<open>conans/client/build/meson.py\<close>\<close>

text \<open>
  Strings are lists of characters; a character is read as a code point below 256.
  A value that may be \<open>None\<close> is an \<open>option\<close>. Exceptions are values of
  type \<open>error\<close>; a function that may raise returns \<open>error + 'a\<close>.
\<close>

datatype error =
    ConanException string
  | KeyError string
  | TypeError
  | AttributeError
  | External string

text \<open>Truthiness of an optional string: \<open>None\<close> and \<open>''\<close> are falsy.\<close>

definition truthy :: "string option \<Rightarrow> bool" where
  "truthy s = (case s of None \<Rightarrow> False | Some v \<Rightarrow> v \<noteq> [])"

text \<open>\<open>a or b\<close> on optional strings.\<close>

definition py_or :: "string option \<Rightarrow> string option \<Rightarrow> string option" where
  "py_or a b = (if truthy a then a else b)"

text \<open>\<open>str(x)\<close> and \<open>'%s' % x\<close> for a string or \<open>None\<close>.\<close>

definition py_str :: "string option \<Rightarrow> string" where
  "py_str s = (case s of None \<Rightarrow> ''None'' | Some v \<Rightarrow> v)"

abbreviation sq :: char where "sq \<equiv> CHR 0x27"
abbreviation dq :: char where "dq \<equiv> CHR 0x22"
abbreviation bsl :: char where "bsl \<equiv> CHR 0x5C"
abbreviation nl :: char where "nl \<equiv> CHR 0x0A"

text \<open>\<open>sep.join(xs)\<close>.\<close>

fun str_join :: "string \<Rightarrow> string list \<Rightarrow> string" where
  "str_join sep [] = []"
| "str_join sep [x] = x"
| "str_join sep (x # y # zs) = x @ sep @ str_join sep (y # zs)"

text \<open>
  \<open>s.split(' ')\<close>: the string is cut at every single space character; the result is
  never empty, and two adjacent spaces enclose an empty piece.
\<close>

fun split_space :: "string \<Rightarrow> string list" where
  "split_space [] = [[]]"
| "split_space (c # cs) =
     (if c = CHR '' '' then [] # split_space cs
      else (case split_space cs of
              [] \<Rightarrow> [[c]]
            | w # ws \<Rightarrow> (c # w) # ws))"

text \<open>\<open>s.lower()\<close> on code points below 256.\<close>

definition lower_char :: "char \<Rightarrow> char" where
  "lower_char c =
     (let n = (of_char c :: nat) in
      if (0x41 \<le> n \<and> n \<le> 0x5A) \<or> (0xC0 \<le> n \<and> n \<le> 0xDE \<and> n \<noteq> 0xD7)
      then char_of (n + 0x20) else c)"

definition str_lower :: "string \<Rightarrow> string" where
  "str_lower s = map lower_char s"

text \<open>
  \<open>repr(s)\<close> of a string: single quotes unless the string has a single quote and no
  double quote; the quote character and the backslash are escaped, tab, newline and
  carriage return are written \<open>\t\<close>, \<open>\n\<close>, \<open>\r\<close>, and every other non-printable
  code point is written \<open>\xhh\<close>.
\<close>

definition hex_digit :: "nat \<Rightarrow> char" where
  "hex_digit n = (if n < 16 then ''0123456789abcdef'' ! n else CHR ''?'')"

definition repr_char :: "char \<Rightarrow> char \<Rightarrow> string" where
  "repr_char q c =
     (let n = (of_char c :: nat) in
      if c = q \<or> c = bsl then [bsl, c]
      else if n = 0x09 then [bsl, CHR ''t'']
      else if n = 0x0A then [bsl, CHR ''n'']
      else if n = 0x0D then [bsl, CHR ''r'']
      else if n < 0x20 \<or> n = 0x7F \<or> (0x80 \<le> n \<and> n \<le> 0xA0) \<or> n = 0xAD
      then [bsl, CHR ''x'', hex_digit (n div 16), hex_digit (n mod 16)]
      else [c])"

definition py_repr :: "string \<Rightarrow> string" where
  "py_repr s =
     (let q = (if sq \<in> set s \<and> dq \<notin> set s then dq else sq)
      in q # concat (map (repr_char q) s) @ [q])"

text \<open>\<open>sub in s\<close> for strings.\<close>

fun str_contains :: "string \<Rightarrow> string \<Rightarrow> bool" where
  "str_contains sub [] = (sub = [])"
| "str_contains sub (c # cs) = (prefix sub (c # cs) \<or> str_contains sub cs)"

subsection \<open>Dictionaries\<close>

text \<open>
  A \<open>dict\<close> keeps its keys in insertion order: it is an association list with distinct
  keys. \<open>d[k] = v\<close> replaces the value in place when the key is there and appends the
  pair otherwise; \<open>d.update(e)\<close> stores the pairs of \<open>e\<close> in order; \<open>d.get(k)\<close> is
  \<open>map_of d k\<close>.
\<close>

type_synonym ('k, 'v) dict = "('k \<times> 'v) list"

fun dict_set :: "'k \<Rightarrow> 'v \<Rightarrow> ('k, 'v) dict \<Rightarrow> ('k, 'v) dict" where
  "dict_set k v [] = [(k, v)]"
| "dict_set k v (p # ps) = (if fst p = k then (k, v) # ps else p # dict_set k v ps)"

definition dict_update :: "('k, 'v) dict \<Rightarrow> ('k, 'v) dict \<Rightarrow> ('k, 'v) dict" where
  "dict_update d e = fold (\<lambda>(k, v). dict_set k v) e d"

text \<open>A dict display \<open>{k1: v1, k2: v2, ...}\<close>: a repeated key keeps its last value.\<close>

definition dict_of :: "('k \<times> 'v) list \<Rightarrow> ('k, 'v) dict" where
  "dict_of kvs = dict_update [] kvs"

text \<open>\<open>d[k]\<close> raises \<open>KeyError\<close> when the key is missing.\<close>

definition getitem :: "(string \<times> 'v) list \<Rightarrow> string \<Rightarrow> error + 'v" where
  "getitem d k = (case map_of d k of None \<Rightarrow> Inl (KeyError k) | Some v \<Rightarrow> Inr v)"

subsection \<open>Environment overlays and external effects\<close>

text \<open>
  The dictionary handed to \<open>environment_append\<close>: a value is a string, a list of
  strings, or \<open>None\<close>, which asks for the variable to be unset.
\<close>

datatype envval = EnvNone | EnvStr string | EnvList "string list"

type_synonym overlay = "(string \<times> envval) list"

text \<open>\<open>'{x}'.format(x=v)\<close> for a value of an overlay.\<close>

definition envval_str :: "envval \<Rightarrow> string" where
  "envval_str v =
     (case v of
        EnvNone \<Rightarrow> ''None''
      | EnvStr s \<Rightarrow> s
      | EnvList xs \<Rightarrow> ''['' @ str_join '', '' (map py_repr xs) @ '']'')"

text \<open>
  Everything the adapter does to the outside world is recorded, in order, as a list of
  events: a warning on the output channel, a directory creation, opening a file for
  writing, a write to it, the computation of the toolchain-activation variables,
  entering and leaving a scoped environment (with its \<open>post\<close> flag), and the invocation
  of an external command.
\<close>

datatype event =
    Warn string
  | Mkdir "string option"
  | OpenW string
  | Write string string
  | VcvarsDict
  | EnvEnter overlay bool
  | EnvExit
  | Run string

text \<open>An effectful computation: its result or the exception raised, and its events.\<close>

type_synonym 'a eff = "(error + 'a) \<times> event list"

definition ret :: "'a \<Rightarrow> 'a eff" where
  "ret x = (Inr x, [])"

definition raise :: "error \<Rightarrow> 'a eff" where
  "raise e = (Inl e, [])"

definition lift :: "error + 'a \<Rightarrow> 'a eff" where
  "lift r = (r, [])"

text \<open>An external operation: the event is recorded, then the operation's outcome decides.\<close>

definition perform :: "event \<Rightarrow> error option \<Rightarrow> unit eff" where
  "perform ev outcome = ((case outcome of None \<Rightarrow> Inr () | Some e \<Rightarrow> Inl e), [ev])"

text \<open>Sequencing: an exception in the first part skips the second.\<close>

definition andthen :: "'a eff \<Rightarrow> ('a \<Rightarrow> 'b eff) \<Rightarrow> 'b eff" where
  "andthen m f =
     (case m of
        (Inl e, t) \<Rightarrow> (Inl e, t)
      | (Inr x, t) \<Rightarrow> (case f x of (r, t') \<Rightarrow> (r, t @ t')))"

text \<open>
  \<open>with _environment_add(env, post): body\<close>: the scope is entered, the body runs, and
  the scope is left whether the body returned or raised.
\<close>

definition with_env :: "overlay \<Rightarrow> bool \<Rightarrow> 'a eff \<Rightarrow> 'a eff" where
  "with_env env post body = (fst body, EnvEnter env post # snd body @ [EnvExit])"

text \<open>The commands handed to the process runner, in order.\<close>

fun invocations :: "event list \<Rightarrow> string list" where
  "invocations [] = []"
| "invocations (Run cmd # es) = cmd # invocations es"
| "invocations (e # es) = invocations es"

section \<open>The conanfile and the collaborators\<close>

text \<open>
  The conanfile as the adapter reads it. \<open>cf_settings\<close> and \<open>cf_options\<close> are the
  \<open>get_safe\<close> lookups of the settings and options; an option is read only for its
  truth value. \<open>cf_settings_build\<close> is \<open>None\<close> when the conanfile has no
  \<open>settings_build\<close> attribute.
\<close>

record conanfile =
  cf_settings :: "string \<Rightarrow> string option"
  cf_options :: "string \<Rightarrow> bool option"
  cf_settings_build :: "(string \<Rightarrow> string option) option"
  cf_package_folder :: "string option"
  cf_build_folder :: "string option"
  cf_source_folder :: "string option"
  cf_install_folder :: "string option"
  cf_in_local_cache :: bool
  cf_should_configure :: bool
  cf_should_build :: bool
  cf_should_install :: bool
  cf_should_test :: bool

text \<open>
  The functions and constants that \<open>meson.py\<close> imports from the rest of the package
  and from the platform are parameters of the model. An operation on the outside
  world gives its outcome: \<open>None\<close> when it returns, \<open>Some e\<close> when it raises \<open>e\<close>.
\<close>

record collab =
  DEFAULT_LIB :: string
  DEFAULT_BIN :: string
  DEFAULT_INCLUDE :: string
  cppstd_from_settings :: "(string \<Rightarrow> string option) \<Rightarrow> string option"
  conan_v2_behavior :: "string \<Rightarrow> error option"
  get_abs_path :: "string option \<Rightarrow> string option \<Rightarrow> error + string option"
  mkdir :: "string option \<Rightarrow> error option"
  cross_building :: "(string \<Rightarrow> string option) \<Rightarrow> bool"
  get_build_os_arch :: "conanfile \<Rightarrow> string option \<times> string option"
  join_arguments :: "string option list \<Rightarrow> string"
  args_to_string :: "string list option \<Rightarrow> string"
  defs_to_string :: "(string \<times> string) list \<Rightarrow> string"
  path_join :: "string \<Rightarrow> string \<Rightarrow> string"
  pathsep :: string
  platform_system :: string
  vcvars_dict :: "(string \<Rightarrow> string option) \<Rightarrow> error + overlay"
  autotools_vars :: "conanfile \<Rightarrow> error + overlay"
  conanfile_run :: "string \<Rightarrow> error option"
  open_w :: "string \<Rightarrow> error option"

section \<open>The adapter\<close>

text \<open>
  The fields of a \<open>Meson\<close> object; \<open>m_x\<close> is \<open>self.x\<close> or \<open>self._x\<close>.
\<close>

record meson =
  m_conanfile :: conanfile
  m_settings :: "string \<Rightarrow> string option"
  m_append_vcvars :: bool
  m_exe_wrapper :: string
  m_os :: "string option"
  m_compiler :: "string option"
  m_compiler_version :: "string option"
  m_build_type :: "string option"
  m_backend :: string
  m_options :: "(string \<times> string) list"
  m_build_dir :: "string option"


text \<open>\<open>x or d\<close> where \<open>d\<close> is a string.\<close>

definition or_default :: "string option \<Rightarrow> string \<Rightarrow> string" where
  "or_default x d = (case x of None \<Rightarrow> d | Some v \<Rightarrow> if v = [] then d else v)"

text \<open>
  \<open>conan_v2_behavior(msg, v1_behavior=self._conanfile.output.warn)\<close>: the helper
  either raises or hands the message to the warning channel.
\<close>

definition v2_notice :: "collab \<Rightarrow> string \<Rightarrow> unit eff" where
  "v2_notice c msg =
     (case conan_v2_behavior c msg of
        Some e \<Rightarrow> raise e
      | None \<Rightarrow> (Inr (), [Warn msg]))"

subsection \<open>Construction\<close>

definition cppstd_conan2meson :: "(string \<times> string) list" where
  "cppstd_conan2meson = dict_of
     [(''98'', ''c++03''), (''gnu98'', ''gnu++03''),
      (''11'', ''c++11''), (''gnu11'', ''gnu++11''),
      (''14'', ''c++14''), (''gnu14'', ''gnu++14''),
      (''17'', ''c++17''), (''gnu17'', ''gnu++17''),
      (''20'', ''c++1z''), (''gnu20'', ''gnu++1z'')]"

text \<open>The \<open>build_type\<close> setter.\<close>

definition set_build_type :: "meson \<Rightarrow> string option \<Rightarrow> meson \<times> event list" where
  "set_build_type self build_type =
     (let settings_build_type = m_settings self ''build_type''
      in (self\<lparr>m_build_type := build_type\<rparr>,
          if build_type \<noteq> settings_build_type
          then [Warn (''Set build type '' @ [dq] @ py_str build_type @ [dq] @
                      '' is different than the settings build_type '' @ [dq] @
                      py_str settings_build_type @ [dq])]
          else []))"

text \<open>\<open>Meson.__init__(conanfile, backend, build_type, append_vcvars, exe_wrapper)\<close>.\<close>

definition init ::
  "collab \<Rightarrow> conanfile \<Rightarrow> string option \<Rightarrow> string option \<Rightarrow> bool \<Rightarrow> string option
     \<Rightarrow> meson eff" where
  "init c conanfile backend build_type append_vcvars exe_wrapper =
     (let ss = cf_settings conanfile;
          so = cf_options conanfile;
          exe_wrapper1 = or_default exe_wrapper ''false'';
          os1 = ss ''os'';
          compiler1 = ss ''compiler''
      in andthen (if \<not> truthy compiler1
                  then v2_notice c ''compiler setting should be defined.''
                  else ret ()) (\<lambda>_.
         let compiler_version1 = ss ''compiler.version'';
             build_type1 = ss ''build_type'';
             backend1 = or_default backend ''ninja'';
             options0 = [];
             options1 = (if truthy (cf_package_folder conanfile)
                         then dict_set ''prefix'' (py_str (cf_package_folder conanfile)) options0
                         else options0);
             options2 = dict_set ''libdir'' (DEFAULT_LIB c) options1;
             options3 = dict_set ''bindir'' (DEFAULT_BIN c) options2;
             options4 = dict_set ''sbindir'' (DEFAULT_BIN c) options3;
             options5 = dict_set ''libexecdir'' (DEFAULT_BIN c) options4;
             options6 = dict_set ''includedir'' (DEFAULT_INCLUDE c) options5;
             cppstd = cppstd_from_settings c (cf_settings conanfile)
         in andthen (if truthy cppstd
                     then lift (case getitem cppstd_conan2meson (py_str cppstd) of
                                  Inl e \<Rightarrow> Inl e
                                | Inr v \<Rightarrow> Inr (dict_set ''cpp_std'' v options6))
                     else ret options6) (\<lambda>options7.
            let shared = so ''shared'';
                options8 = dict_set ''default_library''
                             (if shared = None \<or> shared = Some True then ''shared'' else ''static'')
                             options7;
                options9 =
                  (if truthy os1 \<and> \<not> str_contains ''Windows'' (py_str os1)
                   then (let fpic = so ''fPIC''
                         in if fpic \<noteq> None
                            then dict_set ''b_staticpic''
                                   (if fpic = Some True \<or> so ''shared'' = Some True
                                    then ''true'' else ''false'')
                                   options8
                            else options8)
                   else options8);
                self = \<lparr> m_conanfile = conanfile,
                         m_settings = cf_settings conanfile,
                         m_append_vcvars = append_vcvars,
                         m_exe_wrapper = exe_wrapper1,
                         m_os = os1,
                         m_compiler = compiler1,
                         m_compiler_version = compiler_version1,
                         m_build_type = build_type1,
                         m_backend = backend1,
                         m_options = options9,
                         m_build_dir = None \<rparr>
            in if truthy build_type \<and> build_type \<noteq> build_type1
               then (case set_build_type self build_type of (self', t) \<Rightarrow> (Inr self', t))
               else ret self)))"

subsection \<open>Directories and flags\<close>

text \<open>\<open>Meson._get_dirs\<close>: the pair \<open>(source_ret, build_ret)\<close>.\<close>

definition get_dirs ::
  "collab \<Rightarrow> meson \<Rightarrow> string option \<Rightarrow> string option \<Rightarrow> string option \<Rightarrow> string option
     \<Rightarrow> string option \<Rightarrow> error + (string option \<times> string option)" where
  "get_dirs c self source_folder build_folder source_dir build_dir cache_build_folder =
     (let cf = m_conanfile self
      in if (truthy source_folder \<or> truthy build_folder) \<and> (truthy source_dir \<or> truthy build_dir)
         then Inl (ConanException (''Use '' @ [sq] @ ''build_folder'' @ [sq] @ ''/'' @
                                   [sq] @ ''source_folder'' @ [sq]))
         else
           (case (if truthy source_dir \<or> truthy build_dir
                  then Inr (py_or source_dir (cf_source_folder cf),
                            py_or build_dir (py_or (m_build_dir self) (cf_build_folder cf)))
                  else (case get_abs_path c build_folder (cf_build_folder cf) of
                          Inl e \<Rightarrow> Inl e
                        | Inr build_ret \<Rightarrow>
                            (case get_abs_path c source_folder (cf_source_folder cf) of
                               Inl e \<Rightarrow> Inl e
                             | Inr source_ret \<Rightarrow> Inr (source_ret, build_ret)))) of
              Inl e \<Rightarrow> Inl e
            | Inr (source_ret, build_ret) \<Rightarrow>
                if cf_in_local_cache cf \<and> truthy cache_build_folder
                then (case get_abs_path c cache_build_folder (cf_build_folder cf) of
                        Inl e \<Rightarrow> Inl e
                      | Inr build_ret' \<Rightarrow> Inr (source_ret, build_ret'))
                else Inr (source_ret, build_ret)))"

text \<open>The \<open>flags\<close> property.\<close>

definition flags :: "collab \<Rightarrow> meson \<Rightarrow> string" where
  "flags c self = defs_to_string c (m_options self)"

subsection \<open>Cross-file synthesis\<close>

text \<open>The architecture table of \<open>_configure_cross_compile\<close>, as the dict display builds it.\<close>

definition arm :: "string \<times> string \<times> string" where
  "arm = (''arm'', ''arm'', ''little'')"

definition cpu_translate :: "(string \<times> (string \<times> string \<times> string)) list" where
  "cpu_translate = dict_of
     [(''x86'', (''x86'', ''x86'', ''little'')),
      (''x86_64'', (''x86_64'', ''x86_64'', ''little'')),
      (''x86'', (''x86'', ''x86'', ''little'')),
      (''ppc32be'', (''ppc'', ''ppc'', ''big'')),
      (''ppc32'', (''ppc'', ''ppc'', ''little'')),
      (''ppc64le'', (''ppc64'', ''ppc64'', ''little'')),
      (''ppc64'', (''ppc64'', ''ppc64'', ''big'')),
      (''armv4'', arm),
      (''armv4i'', arm),
      (''armv5el'', arm),
      (''armv5hf'', arm),
      (''armv6'', arm),
      (''armv7'', arm),
      (''armv7hf'', arm),
      (''armv7s'', arm),
      (''armv7k'', arm),
      (''armv8_32'', arm),
      (''armv8'', (''aarch64'', ''aarch64'', ''little'')),
      (''armv8.3'', (''aarch64'', ''aarch64'', ''little'')),
      (''sparc'', (''sparc'', ''sparc'', ''big'')),
      (''sparcv9'', (''sparc64'', ''sparc64'', ''big'')),
      (''mips'', (''mips'', ''mips'', ''big'')),
      (''mips64'', (''mips64'', ''mips64'', ''big'')),
      (''avr'', (''avr'', ''avr'', ''little'')),
      (''s390'', (''s390'', ''s390'', ''big'')),
      (''s390x'', (''s390'', ''s390'', ''big'')),
      (''wasm'', (''wasm'', ''wasm'', ''little''))]"

text \<open>\<open>os.environ.get(name, default)\<close>.\<close>

definition environ_get :: "(string \<Rightarrow> string option) \<Rightarrow> string \<Rightarrow> string \<Rightarrow> string" where
  "environ_get environ name dflt = (case environ name of None \<Rightarrow> dflt | Some v \<Rightarrow> v)"

text \<open>\<open>', '.join(repr(x) for x in value.split(' '))\<close>.\<close>

definition flag_tokens :: "string \<Rightarrow> string" where
  "flag_tokens v = str_join '', '' (map py_repr (split_space v))"

text \<open>
  The two templates, line by line: the text written is the lines joined by newlines.
  The first line is empty (the template starts with a newline) and the last one is the
  indentation before the closing quotes.
\<close>

definition ind :: "nat \<Rightarrow> string \<Rightarrow> string" where
  "ind n s = replicate n (CHR '' '') @ s"

definition quoted :: "string \<Rightarrow> string" where
  "quoted s = [sq] @ s @ [sq]"

definition build_machine_lines :: "string \<Rightarrow> string \<Rightarrow> string \<Rightarrow> string \<Rightarrow> string list" where
  "build_machine_lines os_build build_cpu_family build_cpu build_endian =
     [[],
      ind 20 ''[build_machine]'',
      ind 20 (''system = '' @ quoted os_build),
      ind 20 (''cpu_family = '' @ quoted build_cpu_family),
      ind 20 (''cpu = '' @ quoted build_cpu),
      ind 20 (''endian = '' @ quoted build_endian),
      ind 16 []]"

fun host_machine_lines ::
  "string \<times> string \<times> string \<times> string \<Rightarrow> string \<times> string \<times> string \<times> string
     \<Rightarrow> string \<times> string \<times> string \<times> string \<times> string \<times> string \<Rightarrow> string list" where
  "host_machine_lines (os_host, cpu_family, cpu, endian) (exe_wrapper, cxxflags, cflags, libdir)
       (cc, cpp, ar, ld, strip, ranlib) =
     [[],
      ind 16 ''[host_machine]'',
      ind 16 (''system = '' @ quoted os_host),
      ind 16 (''cpu_family = '' @ quoted cpu_family),
      ind 16 (''cpu = '' @ quoted cpu),
      ind 16 (''endian = '' @ quoted endian),
      [],
      ind 16 ''[properties]'',
      ind 16 (''needs_exe_wrapper = '' @ quoted exe_wrapper),
      ind 16 (''cpp_args = ['' @ cxxflags @ '']''),
      ind 16 (''c_args = ['' @ cflags @ '']''),
      ind 16 (''pkg_config_libdir='' @ quoted libdir),
      [],
      ind 16 ''[binaries]'',
      ind 16 (''c = '' @ quoted cc),
      ind 16 (''cpp = '' @ quoted cpp),
      ind 16 (''ar = '' @ quoted ar),
      ind 16 (''ld = '' @ quoted ld),
      ind 16 (''strip = '' @ quoted strip),
      ind 16 (''ranlib = '' @ quoted ranlib),
      ind 16 (''pkgconfig = '' @ quoted ''pkg-config''),
      ind 16 []]"

text \<open>
  \<open>Meson._configure_cross_compile(cross_filename, environ_append)\<close>. The dictionary
  \<open>environ_append\<close> is updated in place; the model returns the updated dictionary.
  \<open>environ\<close> is \<open>os.environ\<close> at the time of the call.
\<close>

definition configure_cross_compile ::
  "collab \<Rightarrow> (string \<Rightarrow> string option) \<Rightarrow> meson \<Rightarrow> string \<Rightarrow> overlay \<Rightarrow> overlay eff" where
  "configure_cross_compile c environ self cross_filename environ_append =
     (let cf = m_conanfile self
      in andthen (lift (case cf_settings_build cf of
                          None \<Rightarrow> Inr None
                        | Some sb \<Rightarrow>
                            (case getitem cpu_translate (py_str (sb ''arch'')) of
                               Inl e \<Rightarrow> Inl e
                             | Inr triple \<Rightarrow> Inr (Some (triple, fst (get_build_os_arch c cf))))))
           (\<lambda>build_machine.
         let os_host = str_lower (py_str (cf_settings cf ''os''))
         in andthen (lift (getitem cpu_translate (py_str (cf_settings cf ''arch''))))
              (\<lambda>(cpu_family, cpu, endian).
            let cflags = flag_tokens (environ_get environ ''CFLAGS'' []);
                cxxflags = flag_tokens (environ_get environ ''CXXFLAGS'' []);
                cc = environ_get environ ''CC'' ''cc'';
                cpp = environ_get environ ''CXX'' ''c++'';
                ld = environ_get environ ''LD'' ''ld'';
                ar = environ_get environ ''AR'' ''ar'';
                strip = environ_get environ ''STRIP'' ''strip'';
                ranlib = environ_get environ ''RANLIB'' ''ranlib''
            in andthen (lift (getitem environ_append ''PKG_CONFIG_PATH'')) (\<lambda>libdir.
               andthen (perform (OpenW cross_filename) (open_w c cross_filename)) (\<lambda>_.
               andthen (case build_machine of
                          None \<Rightarrow> ret ()
                        | Some ((build_cpu_family, build_cpu, build_endian), os_build) \<Rightarrow>
                            (case os_build of
                               None \<Rightarrow> raise AttributeError
                             | Some ob \<Rightarrow>
                                 perform (Write cross_filename
                                            (str_join [nl]
                                               (build_machine_lines (str_lower ob)
                                                  build_cpu_family build_cpu build_endian)))
                                         None)) (\<lambda>_.
               andthen (perform (Write cross_filename
                                   (str_join [nl]
                                      (host_machine_lines (os_host, cpu_family, cpu, endian)
                                         (m_exe_wrapper self, cxxflags, cflags, envval_str libdir)
                                         (cc, cpp, ar, ld, strip, ranlib))))
                                None) (\<lambda>_.
               ret (dict_update environ_append
                      [(''CC'', EnvNone),
                       (''CXX'', EnvNone),
                       (''CFLAGS'', EnvNone),
                       (''CXXFLAGS'', EnvNone),
                       (''CPPFLAGS'', EnvNone),
                       (''LDFLAGS'', EnvNone)]))))))))"

subsection \<open>Running commands\<close>

text \<open>The \<open>_vcvars_needed\<close> property.\<close>

definition vcvars_needed :: "collab \<Rightarrow> meson \<Rightarrow> bool" where
  "vcvars_needed c self =
     (m_compiler self = Some ''Visual Studio'' \<and> m_backend self = ''ninja'' \<and>
      platform_system c = ''Windows'')"

text \<open>
  \<open>Meson._run(command)\<close>. The inner function \<open>_build\<close> computes the build environment,
  enters it and runs the command through the conanfile.
\<close>

definition meson_run :: "collab \<Rightarrow> meson \<Rightarrow> string \<Rightarrow> unit eff" where
  "meson_run c self command =
     (let build1 = andthen (lift (autotools_vars c (m_conanfile self))) (\<lambda>env_build_vars.
                     with_env env_build_vars False
                       (perform (Run command) (conanfile_run c command)))
      in if vcvars_needed c self
         then andthen (vcvars_dict c (m_settings self), [VcvarsDict]) (\<lambda>vcvars.
                with_env vcvars (m_append_vcvars self) build1)
         else build1)"

text \<open>\<open>Meson._run_ninja_targets(args, build_dir, targets)\<close>.\<close>

definition run_ninja_targets ::
  "collab \<Rightarrow> meson \<Rightarrow> string list option \<Rightarrow> string option \<Rightarrow> string list option \<Rightarrow> unit eff" where
  "run_ninja_targets c self args build_dir targets =
     (if m_backend self \<noteq> ''ninja''
      then raise (ConanException (''Build only supported with '' @ quoted ''ninja'' @ '' backend''))
      else
        (let args1 = (case args of None \<Rightarrow> [] | Some a \<Rightarrow> a);
             build_dir1 = py_or build_dir
                            (py_or (m_build_dir self) (cf_build_folder (m_conanfile self)));
             arg_list = join_arguments c
                          [Some (''-C '' @ [dq] @ py_str build_dir1 @ [dq]),
                           Some (args_to_string c (Some args1)),
                           Some (args_to_string c targets)]
         in meson_run c self (''ninja '' @ arg_list)))"

text \<open>\<open>Meson._run_meson_command(subcommand, args, build_dir)\<close>.\<close>

definition run_meson_command ::
  "collab \<Rightarrow> meson \<Rightarrow> string option \<Rightarrow> string list option \<Rightarrow> string option \<Rightarrow> unit eff" where
  "run_meson_command c self subcommand args build_dir =
     (let args1 = (case args of None \<Rightarrow> [] | Some a \<Rightarrow> a);
          build_dir1 = py_or build_dir
                         (py_or (m_build_dir self) (cf_build_folder (m_conanfile self)));
          arg_list = join_arguments c
                       [subcommand,
                        Some (''-C '' @ [dq] @ py_str build_dir1 @ [dq]),
                        Some (args_to_string c (Some args1))]
      in meson_run c self (''meson '' @ arg_list))"

subsection \<open>The phases\<close>

text \<open>
  The value of \<open>pc_paths\<close> in \<open>configure\<close>: the given paths made absolute against the
  install folder and joined with \<open>os.pathsep\<close>, or the install folder itself when no
  path is given. Joining raises \<open>TypeError\<close> on an item that is \<open>None\<close>.
\<close>

fun all_abs_paths :: "collab \<Rightarrow> string option \<Rightarrow> string list \<Rightarrow> error + string option list" where
  "all_abs_paths c origin [] = Inr []"
| "all_abs_paths c origin (f # fs) =
     (case get_abs_path c (Some f) origin of
        Inl e \<Rightarrow> Inl e
      | Inr p \<Rightarrow>
          (case all_abs_paths c origin fs of
             Inl e \<Rightarrow> Inl e
           | Inr ps \<Rightarrow> Inr (p # ps)))"

definition envval_of :: "string option \<Rightarrow> envval" where
  "envval_of s = (case s of None \<Rightarrow> EnvNone | Some v \<Rightarrow> EnvStr v)"

definition pc_paths :: "collab \<Rightarrow> conanfile \<Rightarrow> string list option \<Rightarrow> error + envval" where
  "pc_paths c cf pkg_config_paths =
     (case pkg_config_paths of
        Some (f # fs) \<Rightarrow>
          (case all_abs_paths c (cf_install_folder cf) (f # fs) of
             Inl e \<Rightarrow> Inl e
           | Inr ps \<Rightarrow>
               (case those ps of
                  None \<Rightarrow> Inl TypeError
                | Some qs \<Rightarrow> Inr (EnvStr (str_join (pathsep c) qs))))
      | _ \<Rightarrow> Inr (envval_of (cf_install_folder cf)))"

text \<open>The build-type table of \<open>configure\<close> and its lookup with default \<open>''\<close>.\<close>

definition buildtype_table :: "(string \<times> string) list" where
  "buildtype_table = dict_of
     [(''RelWithDebInfo'', ''debugoptimized''),
      (''MinSizeRel'', ''release''),
      (''Debug'', ''debug''),
      (''Release'', ''release'')]"

definition dict_get :: "(string \<times> 'v) list \<Rightarrow> string \<Rightarrow> 'v \<Rightarrow> 'v" where
  "dict_get d k dflt = (case map_of d k of None \<Rightarrow> dflt | Some v \<Rightarrow> v)"

text \<open>
  \<open>Meson.configure(args, defs, source_dir, build_dir, pkg_config_paths,
  cache_build_folder, build_folder, source_folder, no_generated_cross_file)\<close>.
  The adapter is returned as the call leaves it, whether the call returns or raises.
\<close>

definition configure ::
  "collab \<Rightarrow> (string \<Rightarrow> string option) \<Rightarrow> string list option \<Rightarrow> (string \<times> string) list option
     \<Rightarrow> string option \<Rightarrow> string option \<Rightarrow> string list option \<Rightarrow> string option
     \<Rightarrow> string option \<Rightarrow> string option \<Rightarrow> bool \<Rightarrow> meson \<Rightarrow> meson \<times> unit eff" where
  "configure c environ args defs source_dir build_dir pkg_config_paths cache_build_folder
       build_folder source_folder no_generated_cross_file self =
     (if \<not> cf_should_configure (m_conanfile self) then (self, ret ())
      else
        (let args1 = (case args of None \<Rightarrow> [] | Some a \<Rightarrow> a);
             defs1 = (case defs of None \<Rightarrow> [] | Some d \<Rightarrow> d);
             self1 = self\<lparr>m_options := dict_update (m_options self) defs1\<rparr>
         in case get_dirs c self1 source_folder build_folder source_dir build_dir
                   cache_build_folder of
              Inl e \<Rightarrow> (self1, raise e)
            | Inr (source_dir1, build_ret) \<Rightarrow>
                (let self2 = self1\<lparr>m_build_dir := build_ret\<rparr>
                 in (self2,
                     andthen (lift (pc_paths c (m_conanfile self2) pkg_config_paths))
                       (\<lambda>pc_paths1.
                     andthen (perform (Mkdir (m_build_dir self2)) (mkdir c (m_build_dir self2)))
                       (\<lambda>_.
                     let bt = dict_get buildtype_table (py_str (m_build_type self2)) [];
                         build_type = ''--buildtype='' @ bt;
                         cross_option = None;
                         environ_append = [(''PKG_CONFIG_PATH'', pc_paths1)]
                     in andthen
                          (if cross_building c (cf_settings (m_conanfile self2)) \<and>
                              \<not> no_generated_cross_file
                           then (case m_build_dir self2 of
                                   None \<Rightarrow> raise TypeError
                                 | Some bd \<Rightarrow>
                                     (let cross_filename = path_join c bd ''cross_file.txt''
                                      in andthen (configure_cross_compile c environ self2
                                                    cross_filename environ_append)
                                           (\<lambda>environ_append1.
                                             ret (Some (''--cross-file='' @ cross_filename),
                                                  environ_append1))))
                           else ret (cross_option, environ_append))
                          (\<lambda>(cross_option1, environ_append1).
                        let arg_list = join_arguments c
                                         [cross_option1,
                                          Some (''--backend='' @ m_backend self2),
                                          Some (flags c self2),
                                          Some (args_to_string c (Some args1)),
                                          Some build_type];
                            command = ''meson '' @ [dq] @ py_str source_dir1 @ [dq] @ '' '' @
                                      [dq] @ py_str (m_build_dir self2) @ [dq] @ '' '' @ arg_list
                        in with_env environ_append1 False (meson_run c self2 command))))))))"

text \<open>\<open>Meson.build(args, build_dir, targets)\<close>.\<close>

definition build ::
  "collab \<Rightarrow> meson \<Rightarrow> string list option \<Rightarrow> string option \<Rightarrow> string list option \<Rightarrow> unit eff" where
  "build c self args build_dir targets =
     (if \<not> cf_should_build (m_conanfile self) then ret ()
      else andthen (if \<not> truthy (m_build_type self)
                    then v2_notice c ''build_type setting should be defined.''
                    else ret ()) (\<lambda>_.
             run_ninja_targets c self args build_dir targets))"

text \<open>\<open>Meson.install(args, build_dir)\<close>.\<close>

definition install ::
  "collab \<Rightarrow> meson \<Rightarrow> string list option \<Rightarrow> string option \<Rightarrow> unit eff" where
  "install c self args build_dir =
     (if \<not> cf_should_install (m_conanfile self) then ret ()
      else andthen (perform (Mkdir (cf_package_folder (m_conanfile self)))
                      (mkdir c (cf_package_folder (m_conanfile self)))) (\<lambda>_.
             if \<not> truthy (map_of (m_options self) ''prefix'')
             then raise (ConanException
                          (quoted ''prefix'' @ '' not defined for '' @ quoted ''meson.install()'' @
                           [nl] @ ''Make sure '' @ quoted ''package_folder'' @ '' is defined''))
             else run_ninja_targets c self args build_dir (Some [''install''])))"


text \<open>\<open>Meson.meson_install(args, build_dir)\<close> and \<open>Meson.meson_test(args, build_dir)\<close>.\<close>

definition meson_install ::
  "collab \<Rightarrow> meson \<Rightarrow> string list option \<Rightarrow> string option \<Rightarrow> unit eff" where
  "meson_install c self args build_dir =
     (if \<not> cf_should_install (m_conanfile self) then ret ()
      else run_meson_command c self (Some ''install'') args build_dir)"

definition meson_test ::
  "collab \<Rightarrow> meson \<Rightarrow> string list option \<Rightarrow> string option \<Rightarrow> unit eff" where
  "meson_test c self args build_dir =
     (if \<not> cf_should_test (m_conanfile self) then ret ()
      else run_meson_command c self (Some ''test'') args build_dir)"

section \<open>Concrete inputs\<close>

text \<open>
  A concrete set of collaborators, used to run the model: POSIX path conventions, a
  directory helper that raises \<open>TypeError\<close> on \<open>None\<close> (as \<open>os.path\<close> does), a build
  that counts as a cross build when the architecture is not \<open>x86_64\<close>, arguments joined
  by single spaces, and a process runner that succeeds.
\<close>

definition ex_collab :: collab where
  "ex_collab =
     \<lparr> DEFAULT_LIB = ''lib'',
       DEFAULT_BIN = ''bin'',
       DEFAULT_INCLUDE = ''include'',
       cppstd_from_settings = (\<lambda>s. s ''compiler.cppstd''),
       conan_v2_behavior = (\<lambda>msg. None),
       get_abs_path = (\<lambda>folder origin.
          case folder of
            None \<Rightarrow> Inr origin
          | Some f \<Rightarrow>
              if f = [] then Inr origin
              else if prefix ''/'' f then Inr (Some f)
              else (case origin of
                      None \<Rightarrow> Inl TypeError
                    | Some og \<Rightarrow> Inr (Some (og @ ''/'' @ f)))),
       mkdir = (\<lambda>p. case p of None \<Rightarrow> Some TypeError | Some d \<Rightarrow> None),
       cross_building = (\<lambda>s. s ''arch'' \<noteq> Some ''x86_64''),
       get_build_os_arch = (\<lambda>cf.
          case cf_settings_build cf of
            None \<Rightarrow> (cf_settings cf ''os_build'', cf_settings cf ''arch_build'')
          | Some sb \<Rightarrow> (sb ''os'', sb ''arch'')),
       join_arguments = (\<lambda>xs. str_join '' '' (filter (\<lambda>x. x \<noteq> []) (map (\<lambda>x. case x of None \<Rightarrow> [] | Some v \<Rightarrow> v) xs))),
       args_to_string = (\<lambda>a. case a of None \<Rightarrow> [] | Some xs \<Rightarrow> str_join '' '' (map quoted xs)),
       defs_to_string = (\<lambda>d. str_join '' ''
                                (map (\<lambda>(k, v). ''-D'' @ k @ ''='' @ [dq] @ v @ [dq]) d)),
       path_join = (\<lambda>a b. a @ ''/'' @ b),
       pathsep = '':'',
       platform_system = ''Linux'',
       vcvars_dict = (\<lambda>s. Inr [(''VSINSTALLDIR'', EnvStr ''C:/VS'')]),
       autotools_vars = (\<lambda>cf. Inr [(''LIBS'', EnvStr '''')]),
       conanfile_run = (\<lambda>cmd. None),
       open_w = (\<lambda>p. None) \<rparr>"

text \<open>The same collaborators with a process runner that fails.\<close>

definition ex_collab_failing :: collab where
  "ex_collab_failing = ex_collab\<lparr>conanfile_run := (\<lambda>cmd. Some (External ''exit status 1''))\<rparr>"

text \<open>The same collaborators on Windows.\<close>

definition ex_collab_windows :: collab where
  "ex_collab_windows = ex_collab\<lparr>platform_system := ''Windows''\<rparr>"

text \<open>
  A conanfile for a cross build from Linux x86_64 to Linux armv8, and one for a native
  build that has no package folder.
\<close>

definition ex_conanfile :: conanfile where
  "ex_conanfile =
     \<lparr> cf_settings = map_of [(''os'', ''Linux''), (''arch'', ''armv8''), (''compiler'', ''gcc''),
                             (''build_type'', ''RelWithDebInfo'')],
       cf_options = map_of [(''shared'', True)],
       cf_settings_build = Some (map_of [(''os'', ''Linux''), (''arch'', ''x86_64'')]),
       cf_package_folder = Some ''/pkg'',
       cf_build_folder = Some ''/build'',
       cf_source_folder = Some ''/src'',
       cf_install_folder = Some ''/install'',
       cf_in_local_cache = False,
       cf_should_configure = True,
       cf_should_build = True,
       cf_should_install = True,
       cf_should_test = True \<rparr>"

definition ex_conanfile_no_package :: conanfile where
  "ex_conanfile_no_package =
     ex_conanfile\<lparr> cf_settings := map_of [(''os'', ''Linux''), (''arch'', ''x86_64''),
                                          (''compiler'', ''gcc''), (''build_type'', ''Release'')],
                   cf_settings_build := None,
                   cf_package_folder := None \<rparr>"

text \<open>The adapters that \<open>Meson(conanfile)\<close> builds from them.\<close>

definition ex_meson :: meson where
  "ex_meson =
     \<lparr> m_conanfile = ex_conanfile,
       m_settings = cf_settings ex_conanfile,
       m_append_vcvars = False,
       m_exe_wrapper = ''false'',
       m_os = Some ''Linux'',
       m_compiler = Some ''gcc'',
       m_compiler_version = None,
       m_build_type = Some ''RelWithDebInfo'',
       m_backend = ''ninja'',
       m_options = [(''prefix'', ''/pkg''), (''libdir'', ''lib''), (''bindir'', ''bin''),
                    (''sbindir'', ''bin''), (''libexecdir'', ''bin''), (''includedir'', ''include''),
                    (''default_library'', ''shared'')],
       m_build_dir = None \<rparr>"

definition ex_meson_no_package :: meson where
  "ex_meson_no_package =
     \<lparr> m_conanfile = ex_conanfile_no_package,
       m_settings = cf_settings ex_conanfile_no_package,
       m_append_vcvars = False,
       m_exe_wrapper = ''false'',
       m_os = Some ''Linux'',
       m_compiler = Some ''gcc'',
       m_compiler_version = None,
       m_build_type = Some ''Release'',
       m_backend = ''ninja'',
       m_options = [(''libdir'', ''lib''), (''bindir'', ''bin''),
                    (''sbindir'', ''bin''), (''libexecdir'', ''bin''), (''includedir'', ''include''),
                    (''default_library'', ''shared'')],
       m_build_dir = None \<rparr>"

text \<open>
  The command line that \<open>configure(defs={'werror': 'true'})\<close> builds for the cross
  build above.
\<close>

definition ex_command :: string where
  "ex_command =
     ''meson '' @ [dq] @ ''/src'' @ [dq] @ '' '' @ [dq] @ ''/build'' @ [dq] @
     '' --cross-file=/build/cross_file.txt --backend=ninja'' @
     '' -Dprefix='' @ [dq] @ ''/pkg'' @ [dq] @
     '' -Dlibdir='' @ [dq] @ ''lib'' @ [dq] @
     '' -Dbindir='' @ [dq] @ ''bin'' @ [dq] @
     '' -Dsbindir='' @ [dq] @ ''bin'' @ [dq] @
     '' -Dlibexecdir='' @ [dq] @ ''bin'' @ [dq] @
     '' -Dincludedir='' @ [dq] @ ''include'' @ [dq] @
     '' -Ddefault_library='' @ [dq] @ ''shared'' @ [dq] @
     '' -Dwerror='' @ [dq] @ ''true'' @ [dq] @
     '' --buildtype=debugoptimized''"

section \<open>Notions used in the statements\<close>

text \<open>
  The identifiers of the 32-bit ARM family: the keys that the architecture table binds
  to the value \<open>arm\<close>.
\<close>

definition arm_32bit_family :: "string list" where
  "arm_32bit_family =
     [''armv4'', ''armv4i'', ''armv5el'', ''armv5hf'', ''armv6'', ''armv7'', ''armv7hf'',
      ''armv7s'', ''armv7k'', ''armv8_32'']"

text \<open>
  What the process runner makes of a command: the result of \<open>self._conanfile.run\<close>.
\<close>

definition run_result :: "collab \<Rightarrow> string \<Rightarrow> error + unit" where
  "run_result c command = (case conanfile_run c command of None \<Rightarrow> Inr () | Some e \<Rightarrow> Inl e)"

text \<open>
  The command line of \<open>configure\<close>, from the adapter as \<open>configure\<close> has updated
  it, the resolved source directory, the cross-file option and the extra arguments.
\<close>

definition configure_command ::
  "collab \<Rightarrow> meson \<Rightarrow> string option \<Rightarrow> string option \<Rightarrow> string list option \<Rightarrow> string" where
  "configure_command c self2 source_dir1 cross_option1 args =
     ''meson '' @ [dq] @ py_str source_dir1 @ [dq] @ '' '' @
     [dq] @ py_str (m_build_dir self2) @ [dq] @ '' '' @
     join_arguments c
       [cross_option1,
        Some (''--backend='' @ m_backend self2),
        Some (flags c self2),
        Some (args_to_string c (Some (case args of None \<Rightarrow> [] | Some a \<Rightarrow> a))),
        Some (''--buildtype='' @ dict_get buildtype_table (py_str (m_build_type self2)) [])]"

text \<open>
  The reading of the specification for the flag lists: the value is split on
  whitespace, that is, cut at every whitespace character (space, tab, newline, vertical
  tab, form feed, carriage return), so that the empty value gives one empty token.
\<close>

definition is_whitespace :: "char \<Rightarrow> bool" where
  "is_whitespace ch = (of_char ch \<in> {0x20, 0x09, 0x0A, 0x0B, 0x0C, 0x0D :: nat})"

fun spec_split_whitespace :: "string \<Rightarrow> string list" where
  "spec_split_whitespace [] = [[]]"
| "spec_split_whitespace (ch # cs) =
     (if is_whitespace ch then [] # spec_split_whitespace cs
      else (case spec_split_whitespace cs of
              [] \<Rightarrow> [[ch]]
            | w # ws \<Rightarrow> (ch # w) # ws))"

section \<open>Basic facts\<close>

lemma map_of_dict_set: "map_of (dict_set k v d) = (map_of d)(k \<mapsto> v)"
  by (induction d) auto

lemma andthen_Inl: "andthen (Inl e, t) f = (Inl e, t)"
  by (simp add: andthen_def)

lemma andthen_Inr: "andthen (Inr x, t) f = (fst (f x), t @ snd (f x))"
  by (simp add: andthen_def split: prod.splits)

lemma andthen_fst_Inr:
  "fst (andthen m f) = Inr y \<longleftrightarrow> (\<exists>x. fst m = Inr x \<and> fst (f x) = Inr y)"
  by (cases m; cases "fst m") (auto simp: andthen_def split: prod.splits)

lemma andthen_snd:
  "fst m = Inr x \<Longrightarrow> snd (andthen m f) = snd m @ snd (f x)"
  by (cases m) (auto simp: andthen_def split: prod.splits)

lemma invocations_append: "invocations (a @ b) = invocations a @ invocations b"
  by (induction a rule: invocations.induct) simp_all

lemma invocations_with_env: "invocations (snd (with_env ov post body)) = invocations (snd body)"
  by (simp add: with_env_def invocations_append)

lemma getitem_in_table: "getitem d a = Inr t \<Longrightarrow> (a, t) \<in> set d"
  by (auto simp: getitem_def split: option.splits dest: map_of_SomeD)

lemma cpu_translate_eq:
  "cpu_translate =
     [(''x86'', (''x86'', ''x86'', ''little'')),
      (''x86_64'', (''x86_64'', ''x86_64'', ''little'')),
      (''ppc32be'', (''ppc'', ''ppc'', ''big'')),
      (''ppc32'', (''ppc'', ''ppc'', ''little'')),
      (''ppc64le'', (''ppc64'', ''ppc64'', ''little'')),
      (''ppc64'', (''ppc64'', ''ppc64'', ''big'')),
      (''armv4'', arm),
      (''armv4i'', arm),
      (''armv5el'', arm),
      (''armv5hf'', arm),
      (''armv6'', arm),
      (''armv7'', arm),
      (''armv7hf'', arm),
      (''armv7s'', arm),
      (''armv7k'', arm),
      (''armv8_32'', arm),
      (''armv8'', (''aarch64'', ''aarch64'', ''little'')),
      (''armv8.3'', (''aarch64'', ''aarch64'', ''little'')),
      (''sparc'', (''sparc'', ''sparc'', ''big'')),
      (''sparcv9'', (''sparc64'', ''sparc64'', ''big'')),
      (''mips'', (''mips'', ''mips'', ''big'')),
      (''mips64'', (''mips64'', ''mips64'', ''big'')),
      (''avr'', (''avr'', ''avr'', ''little'')),
      (''s390'', (''s390'', ''s390'', ''big'')),
      (''s390x'', (''s390'', ''s390'', ''big'')),
      (''wasm'', (''wasm'', ''wasm'', ''little''))]"
  by (simp add: cpu_translate_def dict_of_def dict_update_def)

lemma buildtype_lookup:
  "dict_get buildtype_table (py_str bt) [] =
     (if bt = Some ''RelWithDebInfo'' then ''debugoptimized''
      else if bt = Some ''MinSizeRel'' then ''release''
      else if bt = Some ''Debug'' then ''debug''
      else if bt = Some ''Release'' then ''release''
      else [])"
  by (cases bt)
     (simp_all add: dict_get_def buildtype_table_def dict_of_def dict_update_def py_str_def)

lemma split_space_nonempty: "split_space v \<noteq> []"
  by (induction v) (auto split: list.splits)

lemma split_space_join: "str_join '' '' (split_space v) = v"
proof (induction v)
  case Nil
  show ?case by simp
next
  case (Cons c v)
  obtain w ws where ws: "split_space v = w # ws"
    using split_space_nonempty [of v] by (cases "split_space v") auto
  show ?case
    using Cons ws by (cases ws) auto
qed

lemma split_space_no_space: "t \<in> set (split_space v) \<Longrightarrow> CHR '' '' \<notin> set t"
proof (induction v arbitrary: t)
  case Nil
  then show ?case by simp
next
  case (Cons c v)
  obtain w ws where ws: "split_space v = w # ws"
    using split_space_nonempty [of v] by (cases "split_space v") auto
  show ?case
    using Cons ws by (auto split: if_splits)
qed

lemma flag_tokens_empty: "flag_tokens [] = [sq, sq]"
  by (simp add: flag_tokens_def py_repr_def Let_def)

lemma host_lines_nth:
  "host_machine_lines m (exe_wrapper, cxxflags, cflags, libdir) b ! 8 =
     ind 16 (''needs_exe_wrapper = '' @ quoted exe_wrapper)"
  "host_machine_lines m (exe_wrapper, cxxflags, cflags, libdir) b ! 9 =
     ind 16 (''cpp_args = ['' @ cxxflags @ '']'')"
  "host_machine_lines m (exe_wrapper, cxxflags, cflags, libdir) b ! 10 =
     ind 16 (''c_args = ['' @ cflags @ '']'')"
  "host_machine_lines m (exe_wrapper, cxxflags, cflags, libdir) b ! 11 =
     ind 16 (''pkg_config_libdir='' @ quoted libdir)"
  "length (host_machine_lines m (exe_wrapper, cxxflags, cflags, libdir) b) = 22"
  by (cases m; cases b; simp)+

lemma get_dirs_options:
  "get_dirs c (self\<lparr>m_options := opts\<rparr>) source_folder build_folder source_dir build_dir
     cache_build_folder =
   get_dirs c self source_folder build_folder source_dir build_dir cache_build_folder"
  by (simp add: get_dirs_def Let_def)




lemma str_contains_Windows_Linux: "\<not> str_contains ''Windows'' ''Linux''"
  by code_simp


lemma init_ex_no_package:
  "init ex_collab ex_conanfile_no_package None None False None = (Inr ex_meson_no_package, [])"
  by (simp add: init_def ex_collab_def ex_conanfile_no_package_def ex_conanfile_def
                ex_meson_no_package_def Let_def andthen_def
                ret_def lift_def truthy_def or_default_def py_str_def
                str_contains_Windows_Linux)

section \<open>Properties of the architecture table\<close>

lemma cpu_translate_endian_all:
  "\<forall>x \<in> set cpu_translate. snd (snd (snd x)) = ''little'' \<or> snd (snd (snd x)) = ''big''"
  by (simp add: cpu_translate_eq arm_def)

lemma cpu_translate_arm_keys:
  "\<forall>x \<in> set cpu_translate. snd x = (''arm'', ''arm'', ''little'') \<longrightarrow> fst x \<in> set arm_32bit_family"
  by (simp add: cpu_translate_eq arm_def arm_32bit_family_def)

lemma cpu_translate_arm_family:
  "\<forall>a \<in> set arm_32bit_family. getitem cpu_translate a = Inr (''arm'', ''arm'', ''little'')"
  by (simp add: getitem_def cpu_translate_eq arm_def arm_32bit_family_def)

lemma cpu_translate_arm64:
  "getitem cpu_translate ''armv8'' = Inr (''aarch64'', ''aarch64'', ''little'')"
  "getitem cpu_translate ''armv8.3'' = Inr (''aarch64'', ''aarch64'', ''little'')"
  by (simp_all add: getitem_def cpu_translate_eq)

text \<open>
  C6. Every identifier that the architecture table resolves gets an endianness that is
  exactly \<open>little\<close> or \<open>big\<close>; \<open>armv8\<close> and \<open>armv8.3\<close> resolve to the cpu
  \<open>aarch64\<close>; and the identifiers of the 32-bit ARM family are exactly those that
  resolve to the one triple \<open>('arm', 'arm', 'little')\<close>.
\<close>

theorem cpu_translate_triples:
  "(getitem cpu_translate a = Inr (fam, cpu, en) \<longrightarrow> en = ''little'' \<or> en = ''big'') \<and>
   (a = ''armv8'' \<or> a = ''armv8.3'' \<longrightarrow>
      (\<exists>f e. getitem cpu_translate a = Inr (f, ''aarch64'', e))) \<and>
   (a \<in> set arm_32bit_family \<longleftrightarrow>
      getitem cpu_translate a = Inr (''arm'', ''arm'', ''little''))"
proof (intro conjI impI)
  assume "getitem cpu_translate a = Inr (fam, cpu, en)"
  then have "(a, fam, cpu, en) \<in> set cpu_translate"
    by (rule getitem_in_table)
  from cpu_translate_endian_all [rule_format, OF this]
  show "en = ''little'' \<or> en = ''big''"
    by simp
next
  assume "a = ''armv8'' \<or> a = ''armv8.3''"
  then show "\<exists>f e. getitem cpu_translate a = Inr (f, ''aarch64'', e)"
    using cpu_translate_arm64 by blast
next
  show "a \<in> set arm_32bit_family \<longleftrightarrow>
          getitem cpu_translate a = Inr (''arm'', ''arm'', ''little'')"
  proof
    assume "a \<in> set arm_32bit_family"
    from cpu_translate_arm_family [rule_format, OF this]
    show "getitem cpu_translate a = Inr (''arm'', ''arm'', ''little'')" .
  next
    assume "getitem cpu_translate a = Inr (''arm'', ''arm'', ''little'')"
    then have "(a, ''arm'', ''arm'', ''little'') \<in> set cpu_translate"
      by (rule getitem_in_table)
    from cpu_translate_arm_keys [rule_format, OF this]
    show "a \<in> set arm_32bit_family"
      by simp
  qed
qed

theorem cpu_translate_triples_witness:
  "getitem cpu_translate ''armv8.3'' = Inr (''aarch64'', ''aarch64'', ''little'') \<and>
   getitem cpu_translate ''ppc32be'' = Inr (''ppc'', ''ppc'', ''big'') \<and>
   ''armv7hf'' \<in> set arm_32bit_family \<and>
   getitem cpu_translate ''armv7hf'' = Inr (''arm'', ''arm'', ''little'')"
  using cpu_translate_triples [of "''armv8.3''" "''aarch64''" "''aarch64''" "''little''"]
        cpu_translate_triples [of "''ppc32be''" "''ppc''" "''ppc''" "''big''"]
        cpu_translate_triples [of "''armv7hf''" "''arm''" "''arm''" "''little''"]
  by (simp add: getitem_def cpu_translate_eq arm_def arm_32bit_family_def)

section \<open>Properties of cross-file synthesis\<close>

lemma configure_cross_compile_result:
  assumes "fst (configure_cross_compile c environ self fn ea) = Inr ov"
  shows "ov = dict_update ea
                [(''CC'', EnvNone), (''CXX'', EnvNone), (''CFLAGS'', EnvNone),
                 (''CXXFLAGS'', EnvNone), (''CPPFLAGS'', EnvNone), (''LDFLAGS'', EnvNone)]"
  using assms
  by (auto simp: configure_cross_compile_def Let_def andthen_fst_Inr ret_def lift_def
           split: prod.splits)

lemma configure_cross_compile_trace:
  assumes "fst (configure_cross_compile c environ self fn ea) = Inr ov"
  shows "\<exists>cpu_family cpu endian libdir pre.
           getitem cpu_translate (py_str (cf_settings (m_conanfile self) ''arch'')) =
             Inr (cpu_family, cpu, endian) \<and>
           getitem ea ''PKG_CONFIG_PATH'' = Inr libdir \<and>
           snd (configure_cross_compile c environ self fn ea) =
             pre @ [Write fn (str_join [nl]
                (host_machine_lines
                   (str_lower (py_str (cf_settings (m_conanfile self) ''os'')),
                    cpu_family, cpu, endian)
                   (m_exe_wrapper self,
                    flag_tokens (environ_get environ ''CXXFLAGS'' []),
                    flag_tokens (environ_get environ ''CFLAGS'' []),
                    envval_str libdir)
                   (environ_get environ ''CC'' ''cc'', environ_get environ ''CXX'' ''c++'',
                    environ_get environ ''AR'' ''ar'', environ_get environ ''LD'' ''ld'',
                    environ_get environ ''STRIP'' ''strip'',
                    environ_get environ ''RANLIB'' ''ranlib'')))]"
  using assms
  apply (simp add: configure_cross_compile_def Let_def andthen_fst_Inr lift_def
              split: prod.splits)
  apply (elim exE conjE)
  apply (simp add: andthen_snd ret_def perform_def split: prod.splits)
  done


lemma configure_cross_compile_invocations:
  "invocations (snd (configure_cross_compile c environ self fn ea)) = []"
  by (auto simp: configure_cross_compile_def Let_def andthen_def lift_def ret_def raise_def
                 perform_def invocations_append
           split: sum.splits option.splits prod.splits)


text \<open>
  C1, as the code has it. After a cross-file synthesis that returns, the overlay maps
  \<open>CC\<close>, \<open>CXX\<close>, \<open>CFLAGS\<close>, \<open>CXXFLAGS\<close>, \<open>CPPFLAGS\<close> and \<open>LDFLAGS\<close> to
  \<open>None\<close> (unset), whatever the initial overlay held, and every other name, \<open>LD\<close>,
  \<open>AR\<close>, \<open>STRIP\<close> and \<open>RANLIB\<close> among them, is as the initial overlay had it.
\<close>

theorem cross_compile_clears_overlay:
  assumes "fst (configure_cross_compile c environ self fn ea) = Inr ov"
  shows "map_of ov k =
           (if k \<in> {''CC'', ''CXX'', ''CFLAGS'', ''CXXFLAGS'', ''CPPFLAGS'', ''LDFLAGS''}
            then Some EnvNone else map_of ea k)"
  unfolding configure_cross_compile_result [OF assms]
  by (simp add: dict_update_def map_of_dict_set)

theorem cross_compile_clears_overlay_witness:
  "fst (configure_cross_compile ex_collab Map.empty ex_meson ''/build/cross_file.txt''
          [(''PKG_CONFIG_PATH'', EnvStr ''/install'')]) =
     Inr [(''PKG_CONFIG_PATH'', EnvStr ''/install''), (''CC'', EnvNone), (''CXX'', EnvNone),
          (''CFLAGS'', EnvNone), (''CXXFLAGS'', EnvNone), (''CPPFLAGS'', EnvNone),
          (''LDFLAGS'', EnvNone)] \<and>
   map_of [(''PKG_CONFIG_PATH'', EnvStr ''/install''), (''CC'', EnvNone), (''CXX'', EnvNone),
           (''CFLAGS'', EnvNone), (''CXXFLAGS'', EnvNone), (''CPPFLAGS'', EnvNone),
           (''LDFLAGS'', EnvNone)] ''CFLAGS'' = Some EnvNone \<and>
   map_of [(''PKG_CONFIG_PATH'', EnvStr ''/install''), (''CC'', EnvNone), (''CXX'', EnvNone),
           (''CFLAGS'', EnvNone), (''CXXFLAGS'', EnvNone), (''CPPFLAGS'', EnvNone),
           (''LDFLAGS'', EnvNone)] ''LD'' = None"
proof -
  have h: "fst (configure_cross_compile ex_collab Map.empty ex_meson ''/build/cross_file.txt''
                  [(''PKG_CONFIG_PATH'', EnvStr ''/install'')]) =
             Inr [(''PKG_CONFIG_PATH'', EnvStr ''/install''), (''CC'', EnvNone), (''CXX'', EnvNone),
                  (''CFLAGS'', EnvNone), (''CXXFLAGS'', EnvNone), (''CPPFLAGS'', EnvNone),
                  (''LDFLAGS'', EnvNone)]"
    by code_simp
  from cross_compile_clears_overlay [OF h, of "''CFLAGS''"]
       cross_compile_clears_overlay [OF h, of "''LD''"] h
  show ?thesis
    by simp
qed

text \<open>
  C1, as the specification has it, fails. After the synthesis for the cross build from
  x86_64 to armv8, started from the overlay that \<open>configure\<close> passes, \<open>LD\<close>,
  \<open>AR\<close>, \<open>STRIP\<close> and \<open>RANLIB\<close> are not mapped to \<open>None\<close>: the overlay does
  not have them.
\<close>

theorem cross_compile_clears_overlay_counterexample:
  "\<not> isl (fst (configure_cross_compile ex_collab Map.empty ex_meson
                 ''/build/cross_file.txt'' [(''PKG_CONFIG_PATH'', EnvStr ''/install'')])) \<and>
   map_of (projr (fst (configure_cross_compile ex_collab Map.empty ex_meson
                         ''/build/cross_file.txt''
                         [(''PKG_CONFIG_PATH'', EnvStr ''/install'')]))) ''LD'' \<noteq> Some EnvNone \<and>
   map_of (projr (fst (configure_cross_compile ex_collab Map.empty ex_meson
                         ''/build/cross_file.txt''
                         [(''PKG_CONFIG_PATH'', EnvStr ''/install'')]))) ''AR'' \<noteq> Some EnvNone \<and>
   map_of (projr (fst (configure_cross_compile ex_collab Map.empty ex_meson
                         ''/build/cross_file.txt''
                         [(''PKG_CONFIG_PATH'', EnvStr ''/install'')]))) ''STRIP'' \<noteq> Some EnvNone \<and>
   map_of (projr (fst (configure_cross_compile ex_collab Map.empty ex_meson
                         ''/build/cross_file.txt''
                         [(''PKG_CONFIG_PATH'', EnvStr ''/install'')]))) ''RANLIB'' \<noteq> Some EnvNone"
  by code_simp




text \<open>
  C5, as the code has it. In the cross file that a synthesis has written, line 9 of the
  host template is \<open>cpp_args = [...]\<close> and line 10 is \<open>c_args = [...]\<close>, where the
  list holds the \<open>repr\<close> of every piece of \<open>CXXFLAGS\<close> (of \<open>CFLAGS\<close>) cut at
  every single space character, joined by a comma and a space. When the variable is
  unset or empty the line is exactly \<open>cpp_args = ['']\<close> (\<open>c_args = ['']\<close>). The
  pieces are those of the cut at spaces and nothing else: joined by single spaces they
  give the value back, and none of them has a space; a tab does not separate tokens.
\<close>

theorem cross_file_flag_args:
  assumes "fst (configure_cross_compile c environ self fn ea) = Inr ov"
  shows "\<exists>ls. last (snd (configure_cross_compile c environ self fn ea)) =
               Write fn (str_join [nl] ls) \<and>
            length ls = 22 \<and>
            ls ! 9 = ind 16 (''cpp_args = ['' @
                       str_join '', '' (map py_repr (split_space (environ_get environ ''CXXFLAGS'' []))) @
                       '']'') \<and>
            ls ! 10 = ind 16 (''c_args = ['' @
                        str_join '', '' (map py_repr (split_space (environ_get environ ''CFLAGS'' []))) @
                        '']'') \<and>
            (environ ''CXXFLAGS'' = None \<or> environ ''CXXFLAGS'' = Some [] \<longrightarrow>
               ls ! 9 = ind 16 (''cpp_args = ['' @ [sq, sq] @ '']'')) \<and>
            (environ ''CFLAGS'' = None \<or> environ ''CFLAGS'' = Some [] \<longrightarrow>
               ls ! 10 = ind 16 (''c_args = ['' @ [sq, sq] @ '']'')) \<and>
            (\<forall>v. str_join '' '' (split_space v) = v \<and>
                 (\<forall>t \<in> set (split_space v). CHR '' '' \<notin> set t))"
proof -
  have e1: "environ ''CXXFLAGS'' = None \<or> environ ''CXXFLAGS'' = Some [] \<Longrightarrow>
           flag_tokens (environ_get environ ''CXXFLAGS'' []) = [sq, sq]"
    by (auto simp: environ_get_def flag_tokens_empty)
  have e2: "environ ''CFLAGS'' = None \<or> environ ''CFLAGS'' = Some [] \<Longrightarrow>
           flag_tokens (environ_get environ ''CFLAGS'' []) = [sq, sq]"
    by (auto simp: environ_get_def flag_tokens_empty)
  from configure_cross_compile_trace [OF assms]
  obtain cpu_family cpu endian libdir pre where
    tr: "snd (configure_cross_compile c environ self fn ea) =
             pre @ [Write fn (str_join [nl]
                (host_machine_lines
                   (str_lower (py_str (cf_settings (m_conanfile self) ''os'')),
                    cpu_family, cpu, endian)
                   (m_exe_wrapper self,
                    flag_tokens (environ_get environ ''CXXFLAGS'' []),
                    flag_tokens (environ_get environ ''CFLAGS'' []),
                    envval_str libdir)
                   (environ_get environ ''CC'' ''cc'', environ_get environ ''CXX'' ''c++'',
                    environ_get environ ''AR'' ''ar'', environ_get environ ''LD'' ''ld'',
                    environ_get environ ''STRIP'' ''strip'',
                    environ_get environ ''RANLIB'' ''ranlib'')))]"
    by blast
  show ?thesis
    apply (rule exI [of _ "host_machine_lines
                   (str_lower (py_str (cf_settings (m_conanfile self) ''os'')),
                    cpu_family, cpu, endian)
                   (m_exe_wrapper self,
                    flag_tokens (environ_get environ ''CXXFLAGS'' []),
                    flag_tokens (environ_get environ ''CFLAGS'' []),
                    envval_str libdir)
                   (environ_get environ ''CC'' ''cc'', environ_get environ ''CXX'' ''c++'',
                    environ_get environ ''AR'' ''ar'', environ_get environ ''LD'' ''ld'',
                    environ_get environ ''STRIP'' ''strip'',
                    environ_get environ ''RANLIB'' ''ranlib'')"])
    using e1 e2
    by (simp add: tr host_lines_nth split_space_join split_space_no_space
             del: host_machine_lines.simps)
       (simp add: flag_tokens_def)
qed

theorem cross_file_flag_args_witness:
  "fst (configure_cross_compile ex_collab (map_of [(''CXXFLAGS'', ''-O2  -g'')]) ex_meson
          ''/build/cross_file.txt'' [(''PKG_CONFIG_PATH'', EnvStr ''/install'')]) =
     Inr [(''PKG_CONFIG_PATH'', EnvStr ''/install''), (''CC'', EnvNone), (''CXX'', EnvNone),
          (''CFLAGS'', EnvNone), (''CXXFLAGS'', EnvNone), (''CPPFLAGS'', EnvNone),
          (''LDFLAGS'', EnvNone)] \<and>
   (\<exists>ls. last (snd (configure_cross_compile ex_collab (map_of [(''CXXFLAGS'', ''-O2  -g'')])
                       ex_meson ''/build/cross_file.txt''
                       [(''PKG_CONFIG_PATH'', EnvStr ''/install'')])) =
           Write ''/build/cross_file.txt'' (str_join [nl] ls) \<and>
         ls ! 9 = ind 16 (''cpp_args = ['' @ [sq] @ ''-O2'' @ [sq] @ '', '' @ [sq, sq] @ '', '' @
                          [sq] @ ''-g'' @ [sq] @ '']'') \<and>
         ls ! 10 = ind 16 (''c_args = ['' @ [sq, sq] @ '']''))"
proof -
  have k: "fst (configure_cross_compile ex_collab (map_of [(''CXXFLAGS'', ''-O2  -g'')]) ex_meson
                  ''/build/cross_file.txt'' [(''PKG_CONFIG_PATH'', EnvStr ''/install'')]) =
             Inr [(''PKG_CONFIG_PATH'', EnvStr ''/install''), (''CC'', EnvNone), (''CXX'', EnvNone),
                  (''CFLAGS'', EnvNone), (''CXXFLAGS'', EnvNone), (''CPPFLAGS'', EnvNone),
                  (''LDFLAGS'', EnvNone)]"
    by code_simp
  have e: "environ_get (map_of [(''CXXFLAGS'', ''-O2  -g'')]) ''CXXFLAGS'' [] = ''-O2  -g''"
          "map_of [(''CXXFLAGS'', ''-O2  -g'')] ''CFLAGS'' = None"
    by (simp_all add: environ_get_def)
  have r: "str_join '', '' (map py_repr (split_space ''-O2  -g'')) =
             [sq] @ ''-O2'' @ [sq] @ '', '' @ [sq, sq] @ '', '' @ [sq] @ ''-g'' @ [sq]"
    by code_simp
  from cross_file_flag_args [OF k] k e r
  show ?thesis
    by auto
qed

text \<open>
  C5, as the specification has it, fails. For the value \<open>-O2<TAB>-g\<close> the list in the
  cross file has the one token \<open>'-O2\t-g'\<close>, where a split on whitespace gives the two
  tokens \<open>'-O2', '-g'\<close>.
\<close>

theorem cross_file_flag_args_counterexample:
  "flag_tokens (''-O2'' @ [CHR 0x09] @ ''-g'') = [sq] @ ''-O2'' @ [bsl] @ ''t-g'' @ [sq] \<and>
   str_join '', '' (map py_repr (spec_split_whitespace (''-O2'' @ [CHR 0x09] @ ''-g''))) =
     [sq] @ ''-O2'' @ [sq] @ '', '' @ [sq] @ ''-g'' @ [sq] \<and>
   flag_tokens (''-O2'' @ [CHR 0x09] @ ''-g'') \<noteq>
     str_join '', '' (map py_repr (spec_split_whitespace (''-O2'' @ [CHR 0x09] @ ''-g'')))"
  by code_simp

section \<open>Properties of running commands\<close>

lemma meson_run_plain:
  assumes "\<not> vcvars_needed c self"
  shows "meson_run c self cmd =
           (case autotools_vars c (m_conanfile self) of
              Inl e \<Rightarrow> (Inl e, [])
            | Inr av \<Rightarrow> (run_result c cmd, [EnvEnter av False, Run cmd, EnvExit]))"
  using assms
  by (simp add: meson_run_def andthen_def lift_def with_env_def perform_def run_result_def
           split: sum.splits option.splits)

lemma meson_run_vcvars_fails:
  assumes "vcvars_needed c self" and "vcvars_dict c (m_settings self) = Inl e"
  shows "meson_run c self cmd = (Inl e, [VcvarsDict])"
  using assms by (simp add: meson_run_def andthen_def)

lemma meson_run_vcvars:
  assumes "vcvars_needed c self" and "vcvars_dict c (m_settings self) = Inr vd"
  shows "meson_run c self cmd =
           (case autotools_vars c (m_conanfile self) of
              Inl e \<Rightarrow> (Inl e, [VcvarsDict, EnvEnter vd (m_append_vcvars self), EnvExit])
            | Inr av \<Rightarrow>
                (run_result c cmd,
                 [VcvarsDict, EnvEnter vd (m_append_vcvars self),
                  EnvEnter av False, Run cmd, EnvExit, EnvExit]))"
  using assms
  by (simp add: meson_run_def andthen_def lift_def with_env_def perform_def run_result_def
           split: sum.splits option.splits)

lemma meson_run_invocations:
  "invocations (snd (meson_run c self cmd)) = [] \<or>
   invocations (snd (meson_run c self cmd)) = [cmd]"
proof (cases "vcvars_needed c self")
  case False
  then show ?thesis
    by (simp add: meson_run_plain split: sum.splits)
next
  case True
  then show ?thesis
    by (cases "vcvars_dict c (m_settings self)")
       (simp_all add: meson_run_vcvars_fails meson_run_vcvars split: sum.splits)
qed

lemma meson_run_result:
  assumes "invocations (snd (meson_run c self cmd)) \<noteq> []"
  shows "fst (meson_run c self cmd) = run_result c cmd"
proof (cases "vcvars_needed c self")
  case False
  with assms show ?thesis
    by (auto simp: meson_run_plain split: sum.splits)
next
  case True
  with assms show ?thesis
    by (cases "vcvars_dict c (m_settings self)")
       (auto simp: meson_run_vcvars_fails meson_run_vcvars split: sum.splits)
qed

text \<open>
  C9. The toolchain-activation variables are computed, and their scope entered, if and
  only if the compiler setting is \<open>Visual Studio\<close>, the backend is \<open>ninja\<close> and
  \<open>platform.system()\<close>, the system the adapter runs on, is \<open>Windows\<close>. When they are
  computed, their scope is entered before the build environment's scope and the
  command, and left after the command, whether the command returned or raised (the
  result is the command's in both cases); it is left as well when the build environment
  cannot be computed. Otherwise only the build environment's scope surrounds the
  command.
\<close>

theorem vcvars_overlay_scope:
  "(vcvars_needed c self \<longleftrightarrow>
      m_compiler self = Some ''Visual Studio'' \<and> m_backend self = ''ninja'' \<and>
      platform_system c = ''Windows'') \<and>
   (VcvarsDict \<in> set (snd (meson_run c self cmd)) \<longleftrightarrow> vcvars_needed c self) \<and>
   (vcvars_needed c self \<and> vcvars_dict c (m_settings self) = Inr vd \<longrightarrow>
      meson_run c self cmd =
        (case autotools_vars c (m_conanfile self) of
           Inl e \<Rightarrow> (Inl e, [VcvarsDict, EnvEnter vd (m_append_vcvars self), EnvExit])
         | Inr av \<Rightarrow>
             (run_result c cmd,
              [VcvarsDict, EnvEnter vd (m_append_vcvars self),
               EnvEnter av False, Run cmd, EnvExit, EnvExit]))) \<and>
   (\<not> vcvars_needed c self \<longrightarrow>
      meson_run c self cmd =
        (case autotools_vars c (m_conanfile self) of
           Inl e \<Rightarrow> (Inl e, [])
         | Inr av \<Rightarrow> (run_result c cmd, [EnvEnter av False, Run cmd, EnvExit])))"
proof (intro conjI impI)
  show "vcvars_needed c self \<longleftrightarrow>
          m_compiler self = Some ''Visual Studio'' \<and> m_backend self = ''ninja'' \<and>
          platform_system c = ''Windows''"
    by (simp add: vcvars_needed_def)
next
  show "VcvarsDict \<in> set (snd (meson_run c self cmd)) \<longleftrightarrow> vcvars_needed c self"
  proof (cases "vcvars_needed c self")
    case False
    then show ?thesis
      by (simp add: meson_run_plain split: sum.splits)
  next
    case True
    then show ?thesis
      by (cases "vcvars_dict c (m_settings self)")
         (simp_all add: meson_run_vcvars_fails meson_run_vcvars split: sum.splits)
  qed
next
  assume "vcvars_needed c self \<and> vcvars_dict c (m_settings self) = Inr vd"
  then show "meson_run c self cmd =
        (case autotools_vars c (m_conanfile self) of
           Inl e \<Rightarrow> (Inl e, [VcvarsDict, EnvEnter vd (m_append_vcvars self), EnvExit])
         | Inr av \<Rightarrow>
             (run_result c cmd,
              [VcvarsDict, EnvEnter vd (m_append_vcvars self),
               EnvEnter av False, Run cmd, EnvExit, EnvExit]))"
    by (simp add: meson_run_vcvars)
next
  assume "\<not> vcvars_needed c self"
  then show "meson_run c self cmd =
        (case autotools_vars c (m_conanfile self) of
           Inl e \<Rightarrow> (Inl e, [])
         | Inr av \<Rightarrow> (run_result c cmd, [EnvEnter av False, Run cmd, EnvExit]))"
    by (rule meson_run_plain)
qed

theorem vcvars_overlay_scope_witness:
  "vcvars_needed ex_collab_windows (ex_meson\<lparr>m_compiler := Some ''Visual Studio''\<rparr>) \<and>
   meson_run (ex_collab_windows\<lparr>conanfile_run := (\<lambda>cmd. Some (External ''exit status 1''))\<rparr>)
     (ex_meson\<lparr>m_compiler := Some ''Visual Studio''\<rparr>) ''ninja'' =
     (Inl (External ''exit status 1''),
      [VcvarsDict, EnvEnter [(''VSINSTALLDIR'', EnvStr ''C:/VS'')] False,
       EnvEnter [(''LIBS'', EnvStr [])] False, Run ''ninja'', EnvExit, EnvExit]) \<and>
   \<not> vcvars_needed ex_collab ex_meson \<and>
   meson_run ex_collab ex_meson ''ninja'' =
     (Inr (), [EnvEnter [(''LIBS'', EnvStr [])] False, Run ''ninja'', EnvExit])"
  using vcvars_overlay_scope
          [of "ex_collab_windows\<lparr>conanfile_run := (\<lambda>cmd. Some (External ''exit status 1''))\<rparr>"
              "ex_meson\<lparr>m_compiler := Some ''Visual Studio''\<rparr>" "''ninja''"
              "[(''VSINSTALLDIR'', EnvStr ''C:/VS'')]"]
        vcvars_overlay_scope [of ex_collab ex_meson "''ninja''" "[]"]
  by (simp add: vcvars_needed_def ex_collab_windows_def ex_collab_def ex_meson_def
                run_result_def)

section \<open>Properties of build, test and install\<close>





text \<open>
  With \<open>should_install\<close> true, no package folder and no \<open>prefix\<close> in the options,
  \<open>install()\<close> raises and invokes no command, whatever the directory helper does with
  \<open>None\<close>; the exception is the \<open>ConanException\<close> about the missing prefix only when
  the directory helper returns.
\<close>

lemma install_without_prefix:
  assumes "cf_should_install (m_conanfile self)"
      and "cf_package_folder (m_conanfile self) = None"
      and "map_of (m_options self) ''prefix'' = None"
  shows "install c self args build_dir =
           (case mkdir c None of
              Some e \<Rightarrow> (Inl e, [Mkdir None])
            | None \<Rightarrow>
                (Inl (ConanException
                        (quoted ''prefix'' @ '' not defined for '' @ quoted ''meson.install()'' @
                         [nl] @ ''Make sure '' @ quoted ''package_folder'' @ '' is defined'')),
                 [Mkdir None]))"
  using assms
  by (simp add: install_def andthen_def perform_def truthy_def raise_def split: option.splits)

text \<open>
  C2. \<open>install()\<close> creates the package folder before it looks for the prefix. For the
  conanfile without a package folder, whose adapter has no \<open>prefix\<close>, and a directory
  helper that raises \<open>TypeError\<close> on \<open>None\<close>, \<open>install()\<close> raises that
  \<open>TypeError\<close>, not the \<open>ConanException\<close> of the missing prefix; no command is invoked.
\<close>

theorem install_no_package_folder:
  "cf_should_install (m_conanfile ex_meson_no_package) \<and>
   cf_package_folder (m_conanfile ex_meson_no_package) = None \<and>
   map_of (m_options ex_meson_no_package) ''prefix'' = None \<and>
   install ex_collab ex_meson_no_package None None = (Inl TypeError, [Mkdir None])"
  by (simp add: install_without_prefix ex_meson_no_package_def ex_conanfile_no_package_def
                ex_conanfile_def ex_collab_def)

section \<open>Properties of configure\<close>

text \<open>
  The shape of a \<open>configure\<close> call that reaches the process runner: the directories
  were resolved, the search path computed, the build directory created, the cross file
  written when one is due, and the command run inside the scope of the overlay.
\<close>

lemma configure_shape:
  assumes run: "invocations (snd (snd (configure c environ args defs source_dir build_dir
                   pkg_config_paths cache_build_folder build_folder source_folder
                   no_generated_cross_file self))) \<noteq> []"
  defines "self1 \<equiv> self\<lparr>m_options := dict_update (m_options self)
                                          (case defs of None \<Rightarrow> [] | Some d \<Rightarrow> d)\<rparr>"
  shows "\<exists>src bld pcv cross_opt ea pre.
           get_dirs c self1 source_folder build_folder source_dir build_dir cache_build_folder =
             Inr (src, bld) \<and>
           pc_paths c (m_conanfile self) pkg_config_paths = Inr pcv \<and>
           (if cross_building c (cf_settings (m_conanfile self)) \<and> \<not> no_generated_cross_file
            then \<exists>bdir. bld = Some bdir \<and>
                   configure_cross_compile c environ (self1\<lparr>m_build_dir := bld\<rparr>)
                     (path_join c bdir ''cross_file.txt'') [(''PKG_CONFIG_PATH'', pcv)] =
                     (Inr ea, pre) \<and>
                   cross_opt = Some (''--cross-file='' @ path_join c bdir ''cross_file.txt'')
            else ea = [(''PKG_CONFIG_PATH'', pcv)] \<and> pre = [] \<and> cross_opt = None) \<and>
           configure c environ args defs source_dir build_dir pkg_config_paths
             cache_build_folder build_folder source_folder no_generated_cross_file self =
             (self1\<lparr>m_build_dir := bld\<rparr>,
              fst (meson_run c (self1\<lparr>m_build_dir := bld\<rparr>)
                     (configure_command c (self1\<lparr>m_build_dir := bld\<rparr>) src cross_opt args)),
              Mkdir bld # pre @
              EnvEnter ea False #
              snd (meson_run c (self1\<lparr>m_build_dir := bld\<rparr>)
                     (configure_command c (self1\<lparr>m_build_dir := bld\<rparr>) src cross_opt args)) @
              [EnvExit])"
proof -
  have sc: "cf_should_configure (m_conanfile self)"
  proof (rule ccontr)
    assume "\<not> cf_should_configure (m_conanfile self)"
    then show False
      using run by (simp add: configure_def ret_def)
  qed
  obtain src bld where gd:
    "get_dirs c self1 source_folder build_folder source_dir build_dir cache_build_folder =
       Inr (src, bld)"
    using run sc unfolding self1_def
    by (cases "get_dirs c (self\<lparr>m_options := dict_update (m_options self)
                 (case defs of None \<Rightarrow> [] | Some d \<Rightarrow> d)\<rparr>) source_folder build_folder
                 source_dir build_dir cache_build_folder")
       (auto simp: configure_def Let_def raise_def)
  obtain pcv where pc: "pc_paths c (m_conanfile self) pkg_config_paths = Inr pcv"
    using run sc gd unfolding self1_def
    by (cases "pc_paths c (m_conanfile self) pkg_config_paths")
       (auto simp: configure_def Let_def andthen_def lift_def)
  have mk: "mkdir c bld = None"
    using run sc gd pc unfolding self1_def
    by (cases "mkdir c bld")
       (auto simp: configure_def Let_def andthen_def lift_def perform_def)
  show ?thesis
  proof (cases "cross_building c (cf_settings (m_conanfile self)) \<and> \<not> no_generated_cross_file")
    case False
    then show ?thesis
      using sc gd pc mk unfolding self1_def
      by (auto simp: configure_def Let_def andthen_def lift_def perform_def ret_def
                     with_env_def configure_command_def
               split: prod.splits)
  next
    case True
    obtain bdir where bd: "bld = Some bdir"
      using run sc gd pc mk True unfolding self1_def
      by (cases bld) (auto simp: configure_def Let_def andthen_def lift_def perform_def raise_def)
    obtain r pre where cc:
      "configure_cross_compile c environ (self1\<lparr>m_build_dir := bld\<rparr>)
         (path_join c bdir ''cross_file.txt'') [(''PKG_CONFIG_PATH'', pcv)] = (r, pre)"
      by (cases "configure_cross_compile c environ (self1\<lparr>m_build_dir := bld\<rparr>)
         (path_join c bdir ''cross_file.txt'') [(''PKG_CONFIG_PATH'', pcv)]")
    have pre: "invocations pre = []"
      using configure_cross_compile_invocations [of c environ "self1\<lparr>m_build_dir := bld\<rparr>"
                "path_join c bdir ''cross_file.txt''" "[(''PKG_CONFIG_PATH'', pcv)]"]
      by (simp add: cc)
    obtain ea where r: "r = Inr ea"
      using run sc gd pc mk True bd cc pre unfolding self1_def
      by (cases r) (auto simp: configure_def Let_def andthen_def lift_def perform_def)
    show ?thesis
      using sc gd pc mk True bd cc r unfolding self1_def
      by (auto simp: configure_def Let_def andthen_def lift_def perform_def ret_def
                     with_env_def configure_command_def
               split: prod.splits)
  qed
qed

lemma configure_invocations:
  assumes run: "invocations (snd (snd (configure c environ args defs source_dir build_dir
                   pkg_config_paths cache_build_folder build_folder source_folder
                   no_generated_cross_file self))) \<noteq> []"
  shows "\<exists>src bld cross_opt.
           get_dirs c self source_folder build_folder source_dir build_dir cache_build_folder =
             Inr (src, bld) \<and>
           fst (configure c environ args defs source_dir build_dir pkg_config_paths
                  cache_build_folder build_folder source_folder no_generated_cross_file self) =
             self\<lparr>m_options := dict_update (m_options self)
                                   (case defs of None \<Rightarrow> [] | Some d \<Rightarrow> d),
                  m_build_dir := bld\<rparr> \<and>
           invocations (snd (snd (configure c environ args defs source_dir build_dir
                   pkg_config_paths cache_build_folder build_folder source_folder
                   no_generated_cross_file self))) =
             [configure_command c
                (self\<lparr>m_options := dict_update (m_options self)
                                      (case defs of None \<Rightarrow> [] | Some d \<Rightarrow> d),
                     m_build_dir := bld\<rparr>) src cross_opt args] \<and>
           fst (snd (configure c environ args defs source_dir build_dir pkg_config_paths
                  cache_build_folder build_folder source_folder no_generated_cross_file self)) =
             run_result c (configure_command c
                (self\<lparr>m_options := dict_update (m_options self)
                                      (case defs of None \<Rightarrow> [] | Some d \<Rightarrow> d),
                     m_build_dir := bld\<rparr>) src cross_opt args)"
proof -
  from configure_shape [OF run]
  obtain src bld pcv cross_opt ea pre where
    gd: "get_dirs c (self\<lparr>m_options := dict_update (m_options self)
                                          (case defs of None \<Rightarrow> [] | Some d \<Rightarrow> d)\<rparr>)
           source_folder build_folder source_dir build_dir cache_build_folder = Inr (src, bld)" and
    pre: "if cross_building c (cf_settings (m_conanfile self)) \<and> \<not> no_generated_cross_file
            then \<exists>bdir. bld = Some bdir \<and>
                   configure_cross_compile c environ
                     (self\<lparr>m_options := dict_update (m_options self)
                                          (case defs of None \<Rightarrow> [] | Some d \<Rightarrow> d),
                          m_build_dir := bld\<rparr>)
                     (path_join c bdir ''cross_file.txt'') [(''PKG_CONFIG_PATH'', pcv)] =
                     (Inr ea, pre) \<and>
                   cross_opt = Some (''--cross-file='' @ path_join c bdir ''cross_file.txt'')
            else ea = [(''PKG_CONFIG_PATH'', pcv)] \<and> pre = [] \<and> cross_opt = None" and
    eq: "configure c environ args defs source_dir build_dir pkg_config_paths
             cache_build_folder build_folder source_folder no_generated_cross_file self =
             (self\<lparr>m_options := dict_update (m_options self)
                                          (case defs of None \<Rightarrow> [] | Some d \<Rightarrow> d),
                   m_build_dir := bld\<rparr>,
              fst (meson_run c (self\<lparr>m_options := dict_update (m_options self)
                                          (case defs of None \<Rightarrow> [] | Some d \<Rightarrow> d),
                                    m_build_dir := bld\<rparr>)
                     (configure_command c (self\<lparr>m_options := dict_update (m_options self)
                                          (case defs of None \<Rightarrow> [] | Some d \<Rightarrow> d),
                                    m_build_dir := bld\<rparr>) src cross_opt args)),
              Mkdir bld # pre @
              EnvEnter ea False #
              snd (meson_run c (self\<lparr>m_options := dict_update (m_options self)
                                          (case defs of None \<Rightarrow> [] | Some d \<Rightarrow> d),
                                    m_build_dir := bld\<rparr>)
                     (configure_command c (self\<lparr>m_options := dict_update (m_options self)
                                          (case defs of None \<Rightarrow> [] | Some d \<Rightarrow> d),
                                    m_build_dir := bld\<rparr>) src cross_opt args)) @
              [EnvExit])"
    by blast
  let ?self2 = "self\<lparr>m_options := dict_update (m_options self)
                                          (case defs of None \<Rightarrow> [] | Some d \<Rightarrow> d),
                                    m_build_dir := bld\<rparr>"
  let ?cmd = "configure_command c ?self2 src cross_opt args"
  have p0: "invocations pre = []"
  proof (cases "cross_building c (cf_settings (m_conanfile self)) \<and> \<not> no_generated_cross_file")
    case True
    with pre obtain bdir where
      "configure_cross_compile c environ ?self2
         (path_join c bdir ''cross_file.txt'') [(''PKG_CONFIG_PATH'', pcv)] = (Inr ea, pre)"
      by auto
    with configure_cross_compile_invocations [of c environ ?self2
           "path_join c bdir ''cross_file.txt''" "[(''PKG_CONFIG_PATH'', pcv)]"]
    show ?thesis by simp
  next
    case False
    with pre show ?thesis by simp
  qed
  have inv: "invocations (snd (snd (configure c environ args defs source_dir build_dir
                   pkg_config_paths cache_build_folder build_folder source_folder
                   no_generated_cross_file self))) =
             invocations (snd (meson_run c ?self2 ?cmd))"
    by (simp add: eq invocations_append p0)
  with run meson_run_invocations [of c ?self2 ?cmd]
  have one: "invocations (snd (meson_run c ?self2 ?cmd)) = [?cmd]"
    by auto
  have fail: "fst (meson_run c ?self2 ?cmd) = run_result c ?cmd"
    using meson_run_result [of c ?self2 ?cmd] one by simp
  show ?thesis
    apply (rule exI [of _ src], rule exI [of _ bld], rule exI [of _ cross_opt])
    using gd inv one fail
    by (simp add: get_dirs_options eq)
qed

text \<open>
  C3, as the code has it. When \<open>configure\<close> reaches the process runner, it runs one
  command; if that command fails, \<open>configure\<close> raises the command's error, and the
  adapter keeps what \<open>configure\<close> stored before running it: the option plan is the
  former plan updated with \<open>defs\<close>, and the build directory is the resolved one.
\<close>

theorem configure_failure_state:
  assumes "invocations (snd (snd (configure c environ args defs source_dir build_dir
              pkg_config_paths cache_build_folder build_folder source_folder
              no_generated_cross_file self))) \<noteq> []"
  shows "\<exists>cmd src.
           invocations (snd (snd (configure c environ args defs source_dir build_dir
              pkg_config_paths cache_build_folder build_folder source_folder
              no_generated_cross_file self))) = [cmd] \<and>
           (\<forall>e. conanfile_run c cmd = Some e \<longrightarrow>
              fst (snd (configure c environ args defs source_dir build_dir
                 pkg_config_paths cache_build_folder build_folder source_folder
                 no_generated_cross_file self)) = Inl e) \<and>
           m_options (fst (configure c environ args defs source_dir build_dir
              pkg_config_paths cache_build_folder build_folder source_folder
              no_generated_cross_file self)) =
             dict_update (m_options self) (case defs of None \<Rightarrow> [] | Some d \<Rightarrow> d) \<and>
           get_dirs c self source_folder build_folder source_dir build_dir cache_build_folder =
             Inr (src, m_build_dir (fst (configure c environ args defs source_dir build_dir
                    pkg_config_paths cache_build_folder build_folder source_folder
                    no_generated_cross_file self)))"
proof -
  from configure_invocations [OF assms]
  obtain src bld cross_opt where
    "get_dirs c self source_folder build_folder source_dir build_dir cache_build_folder =
       Inr (src, bld)" and
    "fst (configure c environ args defs source_dir build_dir pkg_config_paths
            cache_build_folder build_folder source_folder no_generated_cross_file self) =
       self\<lparr>m_options := dict_update (m_options self)
                             (case defs of None \<Rightarrow> [] | Some d \<Rightarrow> d),
            m_build_dir := bld\<rparr>" and
    "invocations (snd (snd (configure c environ args defs source_dir build_dir
            pkg_config_paths cache_build_folder build_folder source_folder
            no_generated_cross_file self))) =
       [configure_command c
          (self\<lparr>m_options := dict_update (m_options self)
                                (case defs of None \<Rightarrow> [] | Some d \<Rightarrow> d),
               m_build_dir := bld\<rparr>) src cross_opt args]" and
    "fst (snd (configure c environ args defs source_dir build_dir pkg_config_paths
            cache_build_folder build_folder source_folder no_generated_cross_file self)) =
       run_result c (configure_command c
          (self\<lparr>m_options := dict_update (m_options self)
                                (case defs of None \<Rightarrow> [] | Some d \<Rightarrow> d),
               m_build_dir := bld\<rparr>) src cross_opt args)"
    by blast
  then show ?thesis
    by (simp add: run_result_def)
qed

theorem configure_failure_state_witness:
  "invocations (snd (snd (configure ex_collab_failing Map.empty None (Some [(''werror'', ''true'')])
      None None None None None None False ex_meson))) \<noteq> [] \<and>
   (\<exists>cmd src.
      invocations (snd (snd (configure ex_collab_failing Map.empty None
         (Some [(''werror'', ''true'')]) None None None None None None False ex_meson))) = [cmd] \<and>
      (\<forall>e. conanfile_run ex_collab_failing cmd = Some e \<longrightarrow>
         fst (snd (configure ex_collab_failing Map.empty None
            (Some [(''werror'', ''true'')]) None None None None None None False ex_meson)) = Inl e) \<and>
      m_options (fst (configure ex_collab_failing Map.empty None
         (Some [(''werror'', ''true'')]) None None None None None None False ex_meson)) =
        dict_update (m_options ex_meson) [(''werror'', ''true'')] \<and>
      get_dirs ex_collab_failing ex_meson None None None None None =
        Inr (src, m_build_dir (fst (configure ex_collab_failing Map.empty None
               (Some [(''werror'', ''true'')]) None None None None None None False ex_meson))))"
proof -
  have h: "invocations (snd (snd (configure ex_collab_failing Map.empty None
             (Some [(''werror'', ''true'')]) None None None None None None False ex_meson))) \<noteq> []"
    by code_simp
  from configure_failure_state [OF h] h show ?thesis
    by simp
qed

text \<open>
  C3, as the specification has it, fails: the command of the cross build fails,
  \<open>configure(defs={'werror': 'true'})\<close> raises, and both the option plan and the stored
  build directory differ from what they were before the call.
\<close>

theorem configure_failure_state_counterexample:
  "fst (snd (configure ex_collab_failing Map.empty None (Some [(''werror'', ''true'')])
      None None None None None None False ex_meson)) = Inl (External ''exit status 1'') \<and>
   invocations (snd (snd (configure ex_collab_failing Map.empty None (Some [(''werror'', ''true'')])
      None None None None None None False ex_meson))) = [ex_command] \<and>
   m_options (fst (configure ex_collab_failing Map.empty None (Some [(''werror'', ''true'')])
      None None None None None None False ex_meson)) \<noteq> m_options ex_meson \<and>
   m_build_dir (fst (configure ex_collab_failing Map.empty None (Some [(''werror'', ''true'')])
      None None None None None None False ex_meson)) \<noteq> m_build_dir ex_meson"
  by code_simp

text \<open>
  C7. The command that \<open>configure\<close> runs is \<open>meson "<source>" "<build>"\<close> followed
  by the arguments that \<open>join_arguments\<close> joins: the cross-file option, the backend,
  the flags, the extra arguments and, last, \<open>--buildtype=<bt>\<close>. Here \<open>bt\<close> is
  \<open>debugoptimized\<close> for \<open>RelWithDebInfo\<close>, \<open>release\<close> for \<open>MinSizeRel\<close>,
  \<open>debug\<close> for \<open>Debug\<close>, \<open>release\<close> for \<open>Release\<close>, and the empty string for
  every other build type and for none.
\<close>

theorem configure_buildtype:
  assumes "invocations (snd (snd (configure c environ args defs source_dir build_dir
              pkg_config_paths cache_build_folder build_folder source_folder
              no_generated_cross_file self))) \<noteq> []"
  shows "\<exists>src bld cross_opt.
           invocations (snd (snd (configure c environ args defs source_dir build_dir
              pkg_config_paths cache_build_folder build_folder source_folder
              no_generated_cross_file self))) =
             [''meson '' @ [dq] @ src @ [dq] @ '' '' @ [dq] @ bld @ [dq] @ '' '' @
              join_arguments c
                [cross_opt,
                 Some (''--backend='' @ m_backend self),
                 Some (defs_to_string c
                         (dict_update (m_options self) (case defs of None \<Rightarrow> [] | Some d \<Rightarrow> d))),
                 Some (args_to_string c (Some (case args of None \<Rightarrow> [] | Some a \<Rightarrow> a))),
                 Some (''--buildtype='' @
                       (if m_build_type self = Some ''RelWithDebInfo'' then ''debugoptimized''
                        else if m_build_type self = Some ''MinSizeRel'' then ''release''
                        else if m_build_type self = Some ''Debug'' then ''debug''
                        else if m_build_type self = Some ''Release'' then ''release''
                        else []))]]"
proof -
  from configure_invocations [OF assms]
  obtain src bld cross_opt where inv:
    "invocations (snd (snd (configure c environ args defs source_dir build_dir
            pkg_config_paths cache_build_folder build_folder source_folder
            no_generated_cross_file self))) =
       [configure_command c
          (self\<lparr>m_options := dict_update (m_options self)
                                (case defs of None \<Rightarrow> [] | Some d \<Rightarrow> d),
               m_build_dir := bld\<rparr>) src cross_opt args]"
    by blast
  have cmd: "configure_command c
          (self\<lparr>m_options := dict_update (m_options self)
                                (case defs of None \<Rightarrow> [] | Some d \<Rightarrow> d),
               m_build_dir := bld\<rparr>) src cross_opt args =
        ''meson '' @ [dq] @ py_str src @ [dq] @ '' '' @ [dq] @ py_str bld @ [dq] @ '' '' @
              join_arguments c
                [cross_opt,
                 Some (''--backend='' @ m_backend self),
                 Some (defs_to_string c
                         (dict_update (m_options self) (case defs of None \<Rightarrow> [] | Some d \<Rightarrow> d))),
                 Some (args_to_string c (Some (case args of None \<Rightarrow> [] | Some a \<Rightarrow> a))),
                 Some (''--buildtype='' @
                       (if m_build_type self = Some ''RelWithDebInfo'' then ''debugoptimized''
                        else if m_build_type self = Some ''MinSizeRel'' then ''release''
                        else if m_build_type self = Some ''Debug'' then ''debug''
                        else if m_build_type self = Some ''Release'' then ''release''
                        else []))]"
    by (simp add: configure_command_def buildtype_lookup flags_def)
  from inv show ?thesis
    unfolding cmd by blast
qed

theorem configure_buildtype_witness:
  "invocations (snd (snd (configure ex_collab Map.empty None (Some [(''werror'', ''true'')])
      None None None None None None False ex_meson))) = [ex_command] \<and>
   (\<exists>src bld cross_opt.
      [ex_command] =
        [''meson '' @ [dq] @ src @ [dq] @ '' '' @ [dq] @ bld @ [dq] @ '' '' @
              join_arguments ex_collab
                [cross_opt,
                 Some (''--backend='' @ m_backend ex_meson),
                 Some (defs_to_string ex_collab
                         (dict_update (m_options ex_meson) [(''werror'', ''true'')])),
                 Some (args_to_string ex_collab (Some [])),
                 Some (''--buildtype=debugoptimized'')]])"
proof -
  have h: "invocations (snd (snd (configure ex_collab Map.empty None (Some [(''werror'', ''true'')])
      None None None None None None False ex_meson))) = [ex_command]"
    by code_simp
  then have h': "invocations (snd (snd (configure ex_collab Map.empty None
      (Some [(''werror'', ''true'')]) None None None None None None False ex_meson))) \<noteq> []"
    by simp
  have bt: "m_build_type ex_meson = Some ''RelWithDebInfo''"
    by (simp add: ex_meson_def)
  from configure_buildtype [OF h'] h bt show ?thesis
    by simp
qed



end
